theory Spec2Isabelle
  imports Complex_Main
begin

section \<open>JavaScript numbers\<close>

text \<open>
  The services compute on JavaScript numbers. A number is modelled as a finite value or
  one of the three special values that the arithmetic of the source can produce: a
  division by zero gives an infinity, \<open>0 / 0\<close> gives \<open>NaN\<close>, and \<open>NaN\<close> is absorbing.
  Finite values are taken as exact reals: the rounding of binary floating point, overflow
  of finite results and the sign of zero are not modelled (a zero divisor counts as
  \<open>+0\<close>, which is what a sum or difference of the non-negative reflectances gives).
\<close>

datatype jsnum = Num real | PosInf | NegInf | NaN

fun js_neg :: "jsnum \<Rightarrow> jsnum" where
  "js_neg (Num a) = Num (- a)"
| "js_neg PosInf = NegInf"
| "js_neg NegInf = PosInf"
| "js_neg NaN = NaN"

fun js_add :: "jsnum \<Rightarrow> jsnum \<Rightarrow> jsnum" where
  "js_add NaN y = NaN"
| "js_add x NaN = NaN"
| "js_add (Num a) (Num b) = Num (a + b)"
| "js_add (Num a) y = y"
| "js_add x (Num b) = x"
| "js_add PosInf PosInf = PosInf"
| "js_add NegInf NegInf = NegInf"
| "js_add PosInf NegInf = NaN"
| "js_add NegInf PosInf = NaN"

definition js_sub :: "jsnum \<Rightarrow> jsnum \<Rightarrow> jsnum" where
  "js_sub x y = js_add x (js_neg y)"

text \<open>The sign of a number that is not \<open>NaN\<close>; zero counts as positive.\<close>

fun js_nonneg :: "jsnum \<Rightarrow> bool" where
  "js_nonneg (Num a) = (0 \<le> a)"
| "js_nonneg PosInf = True"
| "js_nonneg NegInf = False"
| "js_nonneg NaN = False"

fun js_mul :: "jsnum \<Rightarrow> jsnum \<Rightarrow> jsnum" where
  "js_mul NaN y = NaN"
| "js_mul x NaN = NaN"
| "js_mul (Num a) (Num b) = Num (a * b)"
| "js_mul (Num a) y =
     (if a = 0 then NaN else if (0 < a) = js_nonneg y then PosInf else NegInf)"
| "js_mul x (Num b) =
     (if b = 0 then NaN else if (0 < b) = js_nonneg x then PosInf else NegInf)"
| "js_mul x y = (if js_nonneg x = js_nonneg y then PosInf else NegInf)"

fun js_div :: "jsnum \<Rightarrow> jsnum \<Rightarrow> jsnum" where
  "js_div NaN y = NaN"
| "js_div x NaN = NaN"
| "js_div (Num a) (Num b) =
     (if b = 0 then (if a = 0 then NaN else if 0 < a then PosInf else NegInf)
      else Num (a / b))"
| "js_div (Num a) y = Num 0"
| "js_div x (Num b) = (if js_nonneg x = (0 \<le> b) then PosInf else NegInf)"
| "js_div x y = NaN"

text \<open>Comparisons: every comparison with \<open>NaN\<close> is false.\<close>

fun js_lt :: "jsnum \<Rightarrow> jsnum \<Rightarrow> bool" where
  "js_lt NaN y = False"
| "js_lt x NaN = False"
| "js_lt (Num a) (Num b) = (a < b)"
| "js_lt x PosInf = (x \<noteq> PosInf)"
| "js_lt NegInf y = (y \<noteq> NegInf)"
| "js_lt x y = False"

definition js_gt :: "jsnum \<Rightarrow> jsnum \<Rightarrow> bool" where
  "js_gt x y = js_lt y x"

text \<open>Strict equality \<open>===\<close> of two numbers.\<close>

definition js_eq :: "jsnum \<Rightarrow> jsnum \<Rightarrow> bool" where
  "js_eq x y = (x \<noteq> NaN \<and> x = y)"

definition js_le :: "jsnum \<Rightarrow> jsnum \<Rightarrow> bool" where
  "js_le x y = (js_lt x y \<or> js_eq x y)"

definition js_ge :: "jsnum \<Rightarrow> jsnum \<Rightarrow> bool" where
  "js_ge x y = js_le y x"

text \<open>\<open>Math.max\<close>, \<open>Math.min\<close>, \<open>Math.abs\<close>, \<open>Math.round\<close>, \<open>Math.sin\<close>,
  \<open>isNaN\<close> and \<open>isFinite\<close>. \<open>Math.max\<close> and \<open>Math.min\<close> return \<open>NaN\<close> as
  soon as one argument is \<open>NaN\<close>; \<open>Math.round\<close> rounds halves upwards.\<close>

definition Math_max :: "jsnum \<Rightarrow> jsnum \<Rightarrow> jsnum" where
  "Math_max x y = (if x = NaN \<or> y = NaN then NaN else if js_lt x y then y else x)"

definition Math_min :: "jsnum \<Rightarrow> jsnum \<Rightarrow> jsnum" where
  "Math_min x y = (if x = NaN \<or> y = NaN then NaN else if js_lt y x then y else x)"

fun Math_abs :: "jsnum \<Rightarrow> jsnum" where
  "Math_abs (Num a) = Num \<bar>a\<bar>"
| "Math_abs PosInf = PosInf"
| "Math_abs NegInf = PosInf"
| "Math_abs NaN = NaN"

fun Math_round :: "jsnum \<Rightarrow> jsnum" where
  "Math_round (Num a) = Num (of_int \<lfloor>a + 1 / 2\<rfloor>)"
| "Math_round x = x"

fun Math_sin :: "jsnum \<Rightarrow> jsnum" where
  "Math_sin (Num a) = Num (sin a)"
| "Math_sin x = NaN"

definition isNaN :: "jsnum \<Rightarrow> bool" where
  "isNaN x = (x = NaN)"

fun isFinite :: "jsnum \<Rightarrow> bool" where
  "isFinite (Num a) = True"
| "isFinite x = False"

section \<open>Data model\<close>

text \<open>The reflectances of one scene, as the services destructure them. A band that the
  object lacks reads as \<open>undefined\<close>, which every arithmetic operation turns into
  \<open>NaN\<close>; such a band is \<open>NaN\<close> here.\<close>

record bands =
  B02 :: jsnum
  B03 :: jsnum
  B04 :: jsnum
  B08 :: jsnum
  B8A :: jsnum
  B11 :: jsnum
  B12 :: jsnum

text \<open>What \<open>new Date(d)\<close> gives for a date \<open>d\<close>: its time value in milliseconds
  (\<open>NaN\<close> for an invalid date) and the result of \<open>getMonth()\<close>.\<close>

record jsdate =
  timeValue :: jsnum
  getMonth :: jsnum

record scene =
  scene_id :: string
  date :: jsdate
  cloudCover :: jsnum
  bands :: bands

record location =
  lat :: jsnum
  lon :: jsnum

section \<open>Scene selection\<close>

text \<open>The callback of \<open>scenes.reduce(..., null)\<close> in \<open>selectBestScene\<close>; the
  accumulator starts as \<open>null\<close>. Two \<open>Date\<close> objects compare by their time values.\<close>

definition selectStep :: "scene option \<Rightarrow> scene \<Rightarrow> scene option" where
  "selectStep best current =
     (case best of
        None \<Rightarrow> Some current
      | Some b \<Rightarrow>
          if js_lt (cloudCover current) (cloudCover b) then Some current
          else if js_eq (cloudCover current) (cloudCover b)
                  \<and> js_gt (timeValue (date current)) (timeValue (date b)) then Some current
          else Some b)"

definition selectBestScene :: "scene list \<Rightarrow> scene option" where
  "selectBestScene scenes = foldl selectStep None scenes"

text \<open>A scene of the data model: a cloud cover that is a finite number and a capture
  date that parses.\<close>

definition validScene :: "scene \<Rightarrow> bool" where
  "validScene s = (isFinite (cloudCover s) \<and> isFinite (timeValue (date s)))"

text \<open>The order of the selector, in the comparisons of the source: \<open>r\<close> is at least as
  good as \<open>s\<close> when its cloud cover is not larger and, at equal cloud cover, its capture
  is not earlier.\<close>

definition preferred :: "scene \<Rightarrow> scene \<Rightarrow> bool" where
  "preferred r s =
     (js_le (cloudCover r) (cloudCover s) \<and>
      (js_eq (cloudCover s) (cloudCover r) \<longrightarrow>
         js_le (timeValue (date s)) (timeValue (date r))))"

section \<open>Spectral indices\<close>

record indices =
  ndvi :: jsnum
  evi :: jsnum
  ndmi :: jsnum
  bsi :: jsnum

text \<open>\<open>calculateVegetationIndices\<close> of the analysis service: the four formulas, each
  passed through \<open>Math.max(-1, Math.min(1, _))\<close>.\<close>

definition calculateVegetationIndices :: "bands \<Rightarrow> indices" where
  "calculateVegetationIndices b =
     (let ndvi0 = js_div (js_sub (B08 b) (B04 b)) (js_add (B08 b) (B04 b));
          evi0 = js_mul (Num 2.5)
                   (js_div (js_sub (B08 b) (B04 b))
                      (js_add (js_sub (js_add (B08 b) (js_mul (Num 6) (B04 b)))
                                 (js_mul (Num 7.5) (B02 b))) (Num 1)));
          ndmi0 = js_div (js_sub (B08 b) (B11 b)) (js_add (B08 b) (B11 b));
          bsi0 = js_div (js_sub (js_add (B11 b) (B04 b)) (js_add (B08 b) (B02 b)))
                   (js_add (js_add (B11 b) (B04 b)) (js_add (B08 b) (B02 b)))
      in \<lparr> ndvi = Math_max (Num (- 1)) (Math_min (Num 1) ndvi0),
           evi = Math_max (Num (- 1)) (Math_min (Num 1) evi0),
           ndmi = Math_max (Num (- 1)) (Math_min (Num 1) ndmi0),
           bsi = Math_max (Num (- 1)) (Math_min (Num 1) bsi0) \<rparr>)"

subsection \<open>The index calculator of the utilities\<close>

text \<open>\<open>AnalysisUtils.calculateIndices\<close> receives any object. Its values are numbers or
  values of another type (\<open>typeof\<close> different from \<open>'number'\<close>); the object is the list
  of its own enumerable properties.\<close>

datatype jsval = JNumber jsnum | JOther

type_synonym band_object = "(string \<times> jsval) list"

datatype js_error = Error string | TypeError string

record indices_savi = indices +
  savi :: jsnum

text \<open>\<open>safeCalculation\<close>, applied to the value that its callback returns (the callbacks
  are arithmetic expressions, which do not throw).\<close>

definition safeCalculation :: "jsnum \<Rightarrow> jsnum" where
  "safeCalculation result =
     (if isNaN result \<or> \<not> isFinite result then Num 0
      else Math_max (Num (- 1)) (Math_min (Num 1) result))"

text \<open>The test of \<open>Object.values(bands).every(...)\<close> on one value.\<close>

fun validBand :: "jsval \<Rightarrow> bool" where
  "validBand (JNumber n) = (js_ge n (Num 0) \<and> js_le n (Num 1))"
| "validBand JOther = False"

text \<open>A destructured band as the arithmetic sees it: a missing property is
  \<open>undefined\<close>, which converts to \<open>NaN\<close>. Values that are not numbers do not reach
  the arithmetic, since the validation throws before.\<close>

definition bandValue :: "band_object \<Rightarrow> string \<Rightarrow> jsnum" where
  "bandValue obj k = (case map_of obj k of Some (JNumber n) \<Rightarrow> n | _ \<Rightarrow> NaN)"

definition calculateIndices :: "band_object \<Rightarrow> js_error + indices_savi" where
  "calculateIndices obj =
     (let b02 = bandValue obj ''B02''; b04 = bandValue obj ''B04'';
          b08 = bandValue obj ''B08''; b11 = bandValue obj ''B11'';
          validBands = list_all validBand (map snd obj)
      in if \<not> validBands then Inl (Error ''Invalid spectral band values'')
         else
           let L = Num 0.5 in
           Inr \<lparr> ndvi = safeCalculation (js_div (js_sub b08 b04) (js_add b08 b04)),
                 evi = safeCalculation
                         (js_mul (Num 2.5)
                            (js_div (js_sub b08 b04)
                               (js_add (js_sub (js_add b08 (js_mul (Num 6) b04))
                                          (js_mul (Num 7.5) b02)) (Num 1)))),
                 ndmi = safeCalculation (js_div (js_sub b08 b11) (js_add b08 b11)),
                 bsi = safeCalculation
                         (js_div (js_sub (js_add b11 b04) (js_add b08 b02))
                            (js_add (js_add b11 b04) (js_add b08 b02))),
                 savi = safeCalculation
                          (js_mul (js_div (js_sub b08 b04) (js_add (js_add b08 b04) L))
                             (js_add (Num 1) L)) \<rparr>)"

section \<open>Moisture\<close>

record moisture =
  percentage :: jsnum
  level :: string
  description :: string
  ndmiValue :: jsnum

definition getMoistureLevel :: "jsnum \<Rightarrow> string" where
  "getMoistureLevel p =
     (if js_lt p (Num 15) then ''very_low''
      else if js_lt p (Num 30) then ''low''
      else if js_lt p (Num 60) then ''moderate''
      else if js_lt p (Num 80) then ''high''
      else ''very_high'')"

definition getMoistureDescription :: "jsnum \<Rightarrow> string" where
  "getMoistureDescription p =
     (let lv = getMoistureLevel p in
      if lv = ''very_low'' then ''Very dry soil, irrigation strongly recommended''
      else if lv = ''low'' then ''Dry soil, may need irrigation''
      else if lv = ''moderate'' then ''Adequate moisture for most crops''
      else if lv = ''high'' then ''Good moisture content''
      else ''Potentially waterlogged, check drainage'')"

text \<open>\<open>analyzeSoilMoisture\<close> in its steps: the four segments over NDMI, the SWIR
  refinement, the latitude correction, the clamp, and the rounded result.\<close>

definition moistureSegment :: "jsnum \<Rightarrow> jsnum" where
  "moistureSegment n =
     (if js_gt n (Num 0.4) then js_add (Num 70) (js_mul (js_sub n (Num 0.4)) (Num 50))
      else if js_gt n (Num 0.1) then js_add (Num 40) (js_mul (js_sub n (Num 0.1)) (Num 100))
      else if js_gt n (Num (- 0.1)) then js_add (Num 15) (js_mul (js_add n (Num 0.1)) (Num 125))
      else js_add (Num 5) (Math_max (Num 0) (js_mul (js_add n (Num 0.3)) (Num 50))))"

definition moistureIndex :: "bands \<Rightarrow> indices \<Rightarrow> location \<Rightarrow> jsnum" where
  "moistureIndex b ix loc =
     (let m0 = moistureSegment (ndmi ix);
          swirRatio = js_div (B11 b) (B12 b);
          m1 = js_mul m0 (js_add (Num 0.9) (js_mul (js_sub swirRatio (Num 1)) (Num 0.1)));
          m2 = (if js_lt (Math_abs (lat loc)) (Num 23.5) then js_mul m1 (Num 1.05)
                else if js_gt (Math_abs (lat loc)) (Num 60) then js_mul m1 (Num 0.95)
                else m1)
      in Math_max (Num 5) (Math_min (Num 95) m2))"

definition analyzeSoilMoisture :: "bands \<Rightarrow> indices \<Rightarrow> location \<Rightarrow> moisture" where
  "analyzeSoilMoisture b ix loc =
     (let m = moistureIndex b ix loc in
      \<lparr> percentage = js_div (Math_round (js_mul m (Num 100))) (Num 100),
        level = getMoistureLevel m,
        description = getMoistureDescription m,
        ndmiValue = js_div (Math_round (js_mul (ndmi ix) (Num 1000))) (Num 1000) \<rparr>)"

section \<open>Composition\<close>

record fertility =
  score :: jsnum
  level :: string
  description :: string

record soil_type =
  type :: string
  description :: string

text \<open>The object \<open>composition\<close> built inside \<open>analyzeSoilComposition\<close>, and the
  object returned, which spreads it and adds three properties.\<close>

record composition_values =
  clay :: jsnum
  sand :: jsnum
  silt :: jsnum
  organicMatter :: jsnum
  ironOxide :: jsnum
  ph :: jsnum

record composition = composition_values +
  soilType :: string
  description :: string
  fertility :: fertility

definition estimatePH :: "bands \<Rightarrow> location \<Rightarrow> jsnum" where
  "estimatePH b loc =
     (let ph0 = Num 7.0;
          spectralIndicator = js_div (js_sub (B11 b) (B04 b)) (js_add (B11 b) (B04 b));
          ph1 = js_add ph0 (js_mul spectralIndicator (Num 2));
          ph2 = (if js_gt (lat loc) (Num 50) then js_sub ph1 (Num 0.5) else ph1);
          ph3 = (if js_lt (Math_abs (lat loc)) (Num 23.5) then js_add ph2 (Num 0.3) else ph2)
      in Math_max (Num 4.0)
           (Math_min (Num 9.0) (js_div (Math_round (js_mul ph3 (Num 10))) (Num 10))))"

definition determineSoilType :: "'a composition_values_scheme \<Rightarrow> soil_type" where
  "determineSoilType c =
     (if js_gt (clay c) (Num 40) then
        \<lparr> type = ''Clay'',
          description = ''Heavy clay soil with good nutrient retention but poor drainage'' \<rparr>
      else if js_gt (sand c) (Num 70) then
        \<lparr> type = ''Sand'',
          description = ''Sandy soil with good drainage but low nutrient retention'' \<rparr>
      else if js_gt (silt c) (Num 40) then
        \<lparr> type = ''Silt'',
          description = ''Silty soil with good water retention and moderate drainage'' \<rparr>
      else if js_gt (clay c) (Num 25) \<and> js_gt (sand c) (Num 25) then
        \<lparr> type = ''Clay Loam'',
          description = ''Well-balanced soil with good structure and fertility'' \<rparr>
      else if js_gt (sand c) (Num 50) then
        \<lparr> type = ''Sandy Loam'',
          description = ''Good drainage with reasonable nutrient retention'' \<rparr>
      else
        \<lparr> type = ''Loam'', description = ''Ideal soil type with balanced properties'' \<rparr>)"

definition getFertilityDescription :: "jsnum \<Rightarrow> string" where
  "getFertilityDescription s =
     (if js_gt s (Num 75) then ''Highly fertile soil suitable for most crops''
      else if js_gt s (Num 50) then ''Moderately fertile soil with some improvement potential''
      else ''Low fertility soil requiring amendments'')"

definition assessFertility :: "'a composition_values_scheme \<Rightarrow> fertility" where
  "assessFertility c =
     (let f0 = Num 50;
          f1 = js_add f0 (js_mul (organicMatter c) (Num 5));
          phOptimal = Num 6.75;
          f2 = js_add f1 (js_sub (Num 20) (js_mul (Math_abs (js_sub (ph c) phOptimal)) (Num 10)));
          f3 = (if js_gt (clay c) (Num 20) \<and> js_lt (clay c) (Num 50)
                   \<and> js_gt (sand c) (Num 20) \<and> js_lt (sand c) (Num 60)
                then js_add f2 (Num 15) else f2);
          fertilityScore = Math_max (Num 0) (Math_min (Num 100) f3)
      in \<lparr> score = Math_round fertilityScore,
           level = (if js_gt fertilityScore (Num 75) then ''high''
                    else if js_gt fertilityScore (Num 50) then ''medium'' else ''low''),
           description = getFertilityDescription fertilityScore \<rparr>)"

definition analyzeSoilComposition :: "bands \<Rightarrow> location \<Rightarrow> composition" where
  "analyzeSoilComposition b loc =
     (let ironOxide0 = js_div (B04 b) (B02 b);
          clayContent = js_div (B11 b) (B12 b);
          organicMatter0 = js_sub (Num 1) (js_div (js_add (B04 b) (B11 b)) (Num 2));
          c0 = \<lparr> clay = Math_max (Num 0) (Math_min (Num 100) (js_mul clayContent (Num 40))),
                 sand = Math_max (Num 0)
                          (Math_min (Num 100) (js_mul (js_sub (Num 2) clayContent) (Num 30))),
                 silt = Num 0,
                 organicMatter = Math_max (Num 0) (Math_min (Num 15) (js_mul organicMatter0 (Num 8))),
                 ironOxide = Math_max (Num 0)
                               (Math_min (Num 10) (js_mul (js_sub ironOxide0 (Num 1)) (Num 15))),
                 ph = estimatePH b loc \<rparr>;
          c1 = c0 \<lparr> silt := Math_max (Num 0) (js_sub (js_sub (Num 100) (clay c0)) (sand c0)) \<rparr>;
          st = determineSoilType c1
      in composition_values.extend c1
           \<lparr> soilType = type st,
             description = soil_type.description st,
             fertility = assessFertility c1 \<rparr>)"

section \<open>Temperature\<close>

record temperature_factors =
  seasonal :: jsnum
  latitude :: jsnum
  surface :: jsnum

record temperature =
  celsius :: jsnum
  fahrenheit :: jsnum
  description :: string
  factors :: temperature_factors

definition getTemperatureDescription :: "jsnum \<Rightarrow> string" where
  "getTemperatureDescription t =
     (if js_lt t (Num 5) then ''Very cold - limited biological activity''
      else if js_lt t (Num 15) then ''Cool - slow plant growth''
      else if js_lt t (Num 25) then ''Optimal - good for most crops''
      else if js_lt t (Num 35) then ''Warm - may stress some plants''
      else ''Hot - requires heat-tolerant varieties'')"

definition round1 :: "jsnum \<Rightarrow> jsnum" where
  "round1 x = js_div (Math_round (js_mul x (Num 10))) (Num 10)"

definition calculateSoilTemperature :: "bands \<Rightarrow> location \<Rightarrow> jsdate \<Rightarrow> temperature" where
  "calculateSoilTemperature b loc d =
     (let baseTemp = Num 15;
          month = getMonth d;
          seasonalAdjustment =
            js_mul (Num 10) (Math_sin (js_div (js_mul (js_sub month (Num 3)) (Num pi)) (Num 6)));
          latitudeAdjustment = js_mul (js_sub (Num 30) (Math_abs (lat loc))) (Num 0.3);
          surfaceAdjustment = js_mul (js_sub (B11 b) (B12 b)) (Num 20);
          t = js_add (js_add (js_add baseTemp seasonalAdjustment) latitudeAdjustment)
                surfaceAdjustment
      in \<lparr> celsius = round1 t,
           fahrenheit = round1 (js_add (js_div (js_mul t (Num 9)) (Num 5)) (Num 32)),
           description = getTemperatureDescription t,
           factors = \<lparr> seasonal = round1 seasonalAdjustment,
                       latitude = round1 latitudeAdjustment,
                       surface = round1 surfaceAdjustment \<rparr> \<rparr>)"

section \<open>Confidence\<close>

text \<open>\<open>calculateConfidence\<close> reads the clock: \<open>now\<close> is the value of \<open>new Date()\<close>.
  \<open>confidenceScore\<close> is the variable \<open>confidence\<close> after its clamp, from which the label
  is read.\<close>

definition confidenceScore :: "jsdate \<Rightarrow> scene \<Rightarrow> scene list \<Rightarrow> jsnum" where
  "confidenceScore now bestScene allScenes =
     (let c0 = Num 100;
          c1 = js_sub c0 (js_mul (cloudCover bestScene) (Num 2));
          c2 = (if length allScenes < 2 then js_sub c1 (Num 20) else c1);
          daysSinceCapture =
            js_div (js_sub (timeValue now) (timeValue (date bestScene)))
              (Num (1000 * 60 * 60 * 24));
          c3 = (if js_gt daysSinceCapture (Num 30) then js_sub c2 (Num 10) else c2);
          c4 = (if js_gt daysSinceCapture (Num 90) then js_sub c3 (Num 20) else c3)
      in Math_max (Num 10) (Math_min (Num 100) c4))"

definition calculateConfidence :: "jsdate \<Rightarrow> scene \<Rightarrow> scene list \<Rightarrow> string" where
  "calculateConfidence now bestScene allScenes =
     (let confidence = confidenceScore now bestScene allScenes in
      if js_gt confidence (Num 80) then ''high''
      else if js_gt confidence (Num 60) then ''medium''
      else ''low'')"

section \<open>Recommendations\<close>

record recommendation =
  type :: string
  category :: string
  priority :: string
  severity :: string
  message :: string
  action :: string
  details :: string
  timeline :: string
  cost :: string
  impact :: string
  seasonality :: string

text \<open>\<open>getSeason\<close> ignores the location.\<close>

definition getSeason :: "jsnum \<Rightarrow> location \<Rightarrow> string" where
  "getSeason month loc =
     (if js_ge month (Num 2) \<and> js_le month (Num 4) then ''spring''
      else if js_ge month (Num 5) \<and> js_le month (Num 7) then ''summer''
      else if js_ge month (Num 8) \<and> js_le month (Num 10) then ''fall''
      else ''winter'')"

definition seasonalAdvice :: "(string \<times> (string \<times> string) list) list" where
  "seasonalAdvice =
     [(''irrigation'',
         [(''spring'', ''Monitor emerging crops closely for water needs''),
          (''summer'', ''Peak irrigation season - ensure adequate water supply''),
          (''fall'', ''Reduce irrigation as temperatures cool''),
          (''winter'', ''Minimal irrigation needed in most regions'')]),
      (''planting'',
         [(''spring'', ''Optimal time for most crop planting''),
          (''summer'', ''Plant heat-tolerant varieties''),
          (''fall'', ''Plant cool-season crops and cover crops''),
          (''winter'', ''Limited planting options in temperate regions'')]),
      (''soil_amendment'',
         [(''spring'', ''Apply amendments before planting''),
          (''summer'', ''Light applications to avoid plant stress''),
          (''fall'', ''Ideal time for major soil amendments''),
          (''winter'', ''Plan and prepare amendments for spring'')]),
      (''liming'',
         [(''spring'', ''Apply lime before planting season''),
          (''summer'', ''Avoid liming during hot weather''),
          (''fall'', ''Best time for lime application''),
          (''winter'', ''Good time for lime application in mild climates'')])]"

text \<open>\<open>getSeasonalAdvice\<close> reads the clock: \<open>now\<close> is the value of \<open>new Date()\<close>,
  taken once for a whole run of the generator. A practice or a season that the table
  lacks gives the fallback text (every text of the table is non-empty, so \<open>||\<close> keeps
  it).\<close>

definition getSeasonalAdvice :: "jsdate \<Rightarrow> string \<Rightarrow> location \<Rightarrow> string" where
  "getSeasonalAdvice now practice loc =
     (let month = getMonth now;
          season = getSeason month loc
      in case map_of seasonalAdvice practice of
           None \<Rightarrow> ''Consult local agricultural extension for timing''
         | Some byseason \<Rightarrow>
             (case map_of byseason season of
                None \<Rightarrow> ''Consult local agricultural extension for timing''
              | Some advice \<Rightarrow> advice))"

text \<open>\<open>Array.prototype.join\<close> on strings.\<close>

fun join :: "string \<Rightarrow> string list \<Rightarrow> string" where
  "join sep [] = []"
| "join sep [x] = x"
| "join sep (x # y # ys) = x @ sep @ join sep (y # ys)"

text \<open>The three helpers push onto the list they are given; they return the list.\<close>

definition addSoilHealthRecommendations ::
  "jsdate \<Rightarrow> recommendation list \<Rightarrow> moisture \<Rightarrow> composition \<Rightarrow> indices \<Rightarrow> location
     \<Rightarrow> recommendation list" where
  "addSoilHealthRecommendations now recommendations moisture composition indices location =
     (let r1 = recommendations @
        (if js_lt (organicMatter composition) (Num 3) \<and> js_lt (ndvi indices) (Num 0.5) then
           [
            \<lparr> type = ''Soil Biology Enhancement'',
              category = ''soil_health'',
              priority = ''medium'',
              severity = ''medium'',
              message =
                ''Poor soil biology indicated by low organic matter and vegetation health.'',
              action = ''Implement biological soil enhancement program'',
              details =
                ''Apply mycorrhizal inoculants, beneficial bacteria, and compost tea. Minimize soil disturbance.'',
              timeline = ''Medium-term (3-6 months)'',
              cost = ''Medium'',
              impact = ''High - Builds soil ecosystem'',
              seasonality = getSeasonalAdvice now ''soil_biology'' location \<rparr>]
         else []);
          r2 = r1 @
        (if js_gt (sand composition) (Num 60) \<and> js_lt (ndvi indices) (Num 0.4) then
           [
            \<lparr> type = ''Erosion Prevention'',
              category = ''conservation'',
              priority = ''high'',
              severity = ''high'',
              message = ''Sandy soil with poor vegetation cover is susceptible to erosion.'',
              action = ''Implement immediate erosion control measures'',
              details =
                ''Install windbreaks, create contour farming, use cover crops, apply erosion control matting.'',
              timeline = ''Immediate (0-2 weeks)'',
              cost = ''Medium'',
              impact = ''Critical - Prevents soil loss'',
              seasonality = getSeasonalAdvice now ''erosion_control'' location \<rparr>]
         else [])
      in r2)"

definition addCropRecommendations ::
  "jsdate \<Rightarrow> recommendation list \<Rightarrow> moisture \<Rightarrow> composition \<Rightarrow> indices \<Rightarrow> location
     \<Rightarrow> recommendation list" where
  "addCropRecommendations now recommendations moisture composition indices location =
     (let cropSuggestions =
            (if js_gt (clay composition) (Num 50) \<and> js_gt (percentage moisture) (Num 60)
             then [''rice'', ''cotton'', ''soybeans'']
             else if js_gt (sand composition) (Num 60) \<and> js_lt (percentage moisture) (Num 40)
             then [''drought-resistant crops'', ''millet'', ''sorghum'']
             else if js_ge (ph composition) (Num 6.0) \<and> js_le (ph composition) (Num 7.5)
             then [''corn'', ''wheat'', ''vegetables'']
             else [])
      in recommendations @
        (if length cropSuggestions > 0 then
           [
            \<lparr> type = ''Optimal Crop Selection'',
              category = ''crop_planning'',
              priority = ''low'',
              severity = ''low'',
              message = ''Current soil conditions are well-suited for specific crop types.'',
              action = ''Consider planting: '' @ join '', '' cropSuggestions,
              details =
                ''These crops are well-adapted to your current soil conditions and will likely perform well with minimal amendments.'',
              timeline = ''Next planting season'',
              cost = ''Variable'',
              impact = ''Medium - Optimizes crop success'',
              seasonality = getSeasonalAdvice now ''crop_selection'' location \<rparr>]
         else []))"

definition addSustainabilityRecommendations ::
  "jsdate \<Rightarrow> recommendation list \<Rightarrow> moisture \<Rightarrow> composition \<Rightarrow> indices \<Rightarrow> location
     \<Rightarrow> recommendation list" where
  "addSustainabilityRecommendations now recommendations moisture composition indices location =
     (let r1 = recommendations @
        (if js_lt (organicMatter composition) (Num 4) then
           [
            \<lparr> type = ''Carbon Sequestration'',
              category = ''sustainability'',
              priority = ''low'',
              severity = ''low'',
              message =
                ''Opportunity to increase soil carbon storage and improve environmental sustainability.'',
              action = ''Implement carbon-building agricultural practices'',
              details =
                ''Use no-till farming, diverse crop rotations, cover cropping, and integrated livestock grazing.'',
              timeline = ''Long-term (2-5 years)'',
              cost = ''Low'',
              impact = ''High - Environmental and economic benefits'',
              seasonality = ''Year-round implementation'' \<rparr>]
         else []);
          r2 = r1 @
        (if js_lt (ndvi indices) (Num 0.6) then
           [
            \<lparr> type = ''Biodiversity Enhancement'',
              category = ''sustainability'',
              priority = ''low'',
              severity = ''low'',
              message = ''Enhance on-farm biodiversity to improve ecosystem services.'',
              action = ''Create habitat corridors and diverse plantings'',
              details =
                ''Plant native hedgerows, establish pollinator strips, create wildlife corridors, use diverse crop rotations.'',
              timeline = ''Long-term (1-3 years)'',
              cost = ''Medium'',
              impact = ''Medium - Ecosystem benefits'',
              seasonality = getSeasonalAdvice now ''biodiversity'' location \<rparr>]
         else [])
      in r2)"

text \<open>\<open>generateRecommendations\<close>: the list after each group of rules, in the order
  of the source.\<close>

definition generateRecommendations ::
  "jsdate \<Rightarrow> moisture \<Rightarrow> composition \<Rightarrow> indices \<Rightarrow> location \<Rightarrow> recommendation list" where
  "generateRecommendations now moisture composition indices location =
     (let r0 = [];
          r1 = r0 @
        (if js_lt (percentage moisture) (Num 15) then
           [
            \<lparr> type = ''Critical Irrigation'',
              category = ''water_management'',
              priority = ''critical'',
              severity = ''high'',
              message =
                ''Critically low soil moisture detected. Immediate irrigation required to prevent crop stress.'',
              action = ''Implement emergency irrigation within 24-48 hours'',
              details =
                ''Install drip irrigation systems for efficient water use. Consider mulching to retain moisture.'',
              timeline = ''Immediate (0-2 days)'',
              cost = ''Medium'',
              impact = ''High - Prevents crop failure'',
              seasonality = getSeasonalAdvice now ''irrigation'' location \<rparr>]
         else if js_lt (percentage moisture) (Num 30) then
           [
            \<lparr> type = ''Irrigation Management'',
              category = ''water_management'',
              priority = ''high'',
              severity = ''medium'',
              message =
                ''Soil moisture is below optimal levels. Regular irrigation recommended.'',
              action = ''Increase irrigation frequency by 30-50%'',
              details =
                ''Monitor soil moisture daily. Consider installing moisture sensors for precise irrigation timing.'',
              timeline = ''Short-term (1-2 weeks)'',
              cost = ''Low'',
              impact = ''Medium - Improves crop yield'',
              seasonality = getSeasonalAdvice now ''irrigation'' location \<rparr>]
         else if js_gt (percentage moisture) (Num 85) then
           [
            \<lparr> type = ''Drainage Management'',
              category = ''water_management'',
              priority = ''high'',
              severity = ''medium'',
              message = ''Excessive soil moisture may lead to waterlogging and root rot.'',
              action = ''Improve drainage systems and reduce irrigation'',
              details =
                ''Install subsurface drainage tiles. Create raised beds for better drainage. Check for irrigation system leaks.'',
              timeline = ''Medium-term (2-4 weeks)'',
              cost = ''High'',
              impact = ''High - Prevents root diseases'',
              seasonality = getSeasonalAdvice now ''drainage'' location \<rparr>]
         else []);
          r2 = r1 @
        (if js_lt (ndvi indices) (Num 0.1) then
           [
            \<lparr> type = ''Urgent Revegetation'',
              category = ''vegetation'',
              priority = ''critical'',
              severity = ''high'',
              message =
                ''Extremely poor vegetation cover. Risk of soil erosion and degradation.'',
              action = ''Implement immediate soil stabilization and planting program'',
              details =
                ''Use erosion control blankets, plant fast-growing cover crops, apply organic mulch.'',
              timeline = ''Immediate (0-1 week)'',
              cost = ''High'',
              impact = ''Critical - Prevents soil loss'',
              seasonality = getSeasonalAdvice now ''planting'' location \<rparr>]
         else if js_lt (ndvi indices) (Num 0.3) then
           [
            \<lparr> type = ''Vegetation Enhancement'',
              category = ''vegetation'',
              priority = ''high'',
              severity = ''medium'',
              message =
                ''Low vegetation density detected. Consider crop rotation or replanting.'',
              action = ''Plant cover crops or implement crop diversification'',
              details =
                ''Select drought-resistant varieties. Consider nitrogen-fixing legumes for soil improvement.'',
              timeline = ''Short-term (2-4 weeks)'',
              cost = ''Medium'',
              impact = ''Medium - Improves soil health'',
              seasonality = getSeasonalAdvice now ''planting'' location \<rparr>]
         else []);
          r3 = r2 @
        (if js_gt (clay composition) (Num 60) then
           [
            \<lparr> type = ''Soil Structure Improvement'',
              category = ''soil_health'',
              priority = ''medium'',
              severity = ''low'',
              message = ''High clay content restricts water infiltration and root development.'',
              action = ''Add organic amendments to improve soil structure'',
              details =
                ''Apply 2-4 inches of compost annually. Use gypsum to improve clay aggregation. Avoid working wet clay soil.'',
              timeline = ''Long-term (6-12 months)'',
              cost = ''Medium'',
              impact = ''Medium - Improves soil workability'',
              seasonality = getSeasonalAdvice now ''soil_amendment'' location \<rparr>]
         else []);
          r4 = r3 @
        (if js_gt (sand composition) (Num 70) then
           [
            \<lparr> type = ''Water Retention Enhancement'',
              category = ''soil_health'',
              priority = ''medium'',
              severity = ''medium'',
              message = ''Sandy soil has poor water and nutrient retention capacity.'',
              action =
                ''Increase organic matter content and implement frequent, light irrigation'',
              details =
                ''Add compost, biochar, or well-aged manure. Use slow-release fertilizers. Consider polymer soil conditioners.'',
              timeline = ''Medium-term (3-6 months)'',
              cost = ''Medium'',
              impact = ''High - Improves nutrient retention'',
              seasonality = getSeasonalAdvice now ''soil_amendment'' location \<rparr>]
         else []);
          r5 = r4 @
        (if js_lt (organicMatter composition) (Num 2) then
           [
            \<lparr> type = ''Organic Matter Enhancement'',
              category = ''fertility'',
              priority = ''high'',
              severity = ''medium'',
              message = ''Low organic matter reduces soil fertility and water retention.'',
              action = ''Implement comprehensive organic matter building program'',
              details =
                ''Apply 25-50 lbs compost per 1000 sq ft. Plant cover crops. Use crop residue management. Consider vermicomposting.'',
              timeline = ''Long-term (12-24 months)'',
              cost = ''Medium'',
              impact = ''High - Transforms soil health'',
              seasonality = getSeasonalAdvice now ''organic_matter'' location \<rparr>]
         else []);
          r6 = r5 @
        (if js_lt (ph composition) (Num 5.5) then
           [
            \<lparr> type = ''Severe Acidity Correction'',
              category = ''ph_management'',
              priority = ''high'',
              severity = ''high'',
              message =
                ''Severely acidic soil limits nutrient availability and microbial activity.'',
              action = ''Apply agricultural lime with ongoing pH monitoring'',
              details =
                ''Apply 2-4 tons/acre of ground limestone. Test pH every 6 months. Consider pelletized lime for easier application.'',
              timeline = ''Medium-term (6-12 months)'',
              cost = ''Medium'',
              impact = ''High - Unlocks soil nutrients'',
              seasonality = getSeasonalAdvice now ''liming'' location \<rparr>]
         else if js_lt (ph composition) (Num 6.2) then
           [
            \<lparr> type = ''Mild Acidity Adjustment'',
              category = ''ph_management'',
              priority = ''medium'',
              severity = ''low'',
              message =
                ''Slightly acidic soil may benefit from pH adjustment for optimal crop growth.'',
              action = ''Apply moderate lime application'',
              details =
                ''Apply 1-2 tons/acre of agricultural lime. Monitor pH annually. Consider organic amendments like wood ash.'',
              timeline = ''Medium-term (6-12 months)'',
              cost = ''Low'',
              impact = ''Medium - Optimizes nutrient uptake'',
              seasonality = getSeasonalAdvice now ''liming'' location \<rparr>]
         else if js_gt (ph composition) (Num 8.5) then
           [
            \<lparr> type = ''Alkalinity Reduction'',
              category = ''ph_management'',
              priority = ''high'',
              severity = ''high'',
              message = ''Highly alkaline soil restricts iron and zinc availability.'',
              action = ''Apply sulfur amendments and organic acidifiers'',
              details =
                ''Apply 10-20 lbs/1000 sq ft elemental sulfur. Use organic mulches. Consider iron sulfate for quick results.'',
              timeline = ''Long-term (12-18 months)'',
              cost = ''Medium'',
              impact = ''High - Prevents micronutrient deficiency'',
              seasonality = getSeasonalAdvice now ''acidification'' location \<rparr>]
         else []);
          r7 = r6 @
        (if js_gt (ndvi indices) (Num 0.7) \<and> js_lt (ndmi indices) (Num 0.3) then
           [
            \<lparr> type = ''Water Stress Management'',
              category = ''precision_agriculture'',
              priority = ''medium'',
              severity = ''medium'',
              message = ''Good vegetation cover but moisture stress detected in plants.'',
              action = ''Implement precision irrigation targeting plant water needs'',
              details =
                ''Use NDMI monitoring for irrigation scheduling. Consider deficit irrigation strategies during non-critical growth stages.'',
              timeline = ''Short-term (1-2 weeks)'',
              cost = ''Low'',
              impact = ''Medium - Optimizes water use efficiency'',
              seasonality = getSeasonalAdvice now ''precision_irrigation'' location \<rparr>]
         else []);
          r8 = addSoilHealthRecommendations now r7 moisture composition indices location;
          r9 = addCropRecommendations now r8 moisture composition indices location;
          r10 = addSustainabilityRecommendations now r9 moisture composition indices location
      in r10)"

section \<open>The analysis entry point\<close>

record sentinel_data =
  scenes :: "scene list option"

record soil_analysis =
  sceneUsed :: string
  analysisDate :: jsdate
  moisture :: moisture
  composition :: composition
  ndvi :: jsnum
  temperature :: temperature
  recommendations :: "recommendation list"
  confidence :: string
  indices :: indices

text \<open>\<open>analyzeSoilData\<close>. The property \<open>scenes\<close> may be absent (\<open>None\<close>). The clock is
  read as \<open>now\<close>; the \<open>catch\<close> block rethrows what it caught, so an error is the
  result. Reading \<open>bestScene.id\<close> of \<open>null\<close> would be a \<open>TypeError\<close>.\<close>

definition analyzeSoilData :: "jsdate \<Rightarrow> sentinel_data \<Rightarrow> location \<Rightarrow> js_error + soil_analysis" where
  "analyzeSoilData now sentinelData loc =
     (case scenes sentinelData of
        None \<Rightarrow> Inl (Error ''No satellite data available for analysis'')
      | Some ss \<Rightarrow>
          if length ss = 0 then Inl (Error ''No satellite data available for analysis'')
          else
            (case selectBestScene ss of
               None \<Rightarrow> Inl (TypeError ''Cannot read properties of null'')
             | Some bestScene \<Rightarrow>
                 let ix = calculateVegetationIndices (bands bestScene);
                     m = analyzeSoilMoisture (bands bestScene) ix loc;
                     c = analyzeSoilComposition (bands bestScene) loc;
                     t = calculateSoilTemperature (bands bestScene) loc (date bestScene);
                     rs = generateRecommendations now m c ix loc;
                     conf = calculateConfidence now bestScene ss
                 in Inr \<lparr> sceneUsed = scene_id bestScene,
                          analysisDate = now,
                          moisture = m,
                          composition = c,
                          ndvi = indices.ndvi ix,
                          temperature = t,
                          recommendations = rs,
                          confidence = conf,
                          indices = \<lparr> indices.ndvi = indices.ndvi ix, evi = evi ix,
                                      ndmi = ndmi ix, bsi = bsi ix \<rparr> \<rparr>))"

section \<open>Sample inputs\<close>

text \<open>The band reading and the location of the Central Valley scenario; the date of day
  \<open>d\<close> of month \<open>m\<close> (counted from 0, as \<open>getMonth\<close> does) of 2026 at 00:00 UTC; and
  three scenes with cloud covers 10, 5 and 5 captured one day apart.\<close>

definition sample_bands :: bands where
  "sample_bands =
     \<lparr> B02 = Num 0.08, B03 = Num 0.10, B04 = Num 0.12, B08 = Num 0.25, B8A = Num 0.24,
       B11 = Num 0.20, B12 = Num 0.15 \<rparr>"

definition sample_location :: location where
  "sample_location = \<lparr> lat = Num 36.7, lon = Num (- 119.8) \<rparr>"

definition date2026 :: "nat \<Rightarrow> nat \<Rightarrow> jsdate" where
  "date2026 m d =
     \<lparr> timeValue =
         Num (1767225600000
              + 86400000 * real ([0, 31, 59, 90, 120, 151, 181, 212, 243, 273, 304, 334] ! m
                                 + (d - 1))),
       getMonth = Num (real m) \<rparr>"

definition scene1 :: scene where
  "scene1 = \<lparr> scene_id = ''S1'', date = date2026 0 1, cloudCover = Num 10, bands = sample_bands \<rparr>"

definition scene2 :: scene where
  "scene2 = \<lparr> scene_id = ''S2'', date = date2026 0 2, cloudCover = Num 5, bands = sample_bands \<rparr>"

definition scene3 :: scene where
  "scene3 = \<lparr> scene_id = ''S3'', date = date2026 0 3, cloudCover = Num 5, bands = sample_bands \<rparr>"

text \<open>A single scene with cloud cover 8, captured at the moment the clock shows.\<close>

definition fresh_scene :: scene where
  "fresh_scene = \<lparr> scene_id = ''F'', date = date2026 0 3, cloudCover = Num 8, bands = sample_bands \<rparr>"

text \<open>A reflectance of the data model, a number in \<open>[0, 1]\<close>, and a band reading all of
  whose values are such.\<close>

definition inUnit :: "jsnum \<Rightarrow> bool" where
  "inUnit x = (case x of Num r \<Rightarrow> 0 \<le> r \<and> r \<le> 1 | _ \<Rightarrow> False)"

definition unitBands :: "bands \<Rightarrow> bool" where
  "unitBands b =
     (inUnit (B02 b) \<and> inUnit (B03 b) \<and> inUnit (B04 b) \<and> inUnit (B08 b) \<and> inUnit (B8A b)
      \<and> inUnit (B11 b) \<and> inUnit (B12 b))"

text \<open>Readings with zero reflectances: all bands dark; both SWIR bands dark under the
  sample's visible and near-infrared bands; and a reading on which the denominator of
  EVI, \<open>0.5 + 6 * 0.375 - 7.5 * 0.5 + 1\<close>, is zero.\<close>

definition dark_bands :: bands where
  "dark_bands =
     \<lparr> B02 = Num 0, B03 = Num 0, B04 = Num 0, B08 = Num 0, B8A = Num 0,
       B11 = Num 0, B12 = Num 0 \<rparr>"

definition dark_swir_bands :: bands where
  "dark_swir_bands = sample_bands \<lparr> B11 := Num 0, B12 := Num 0 \<rparr>"

definition evi_pole_bands :: bands where
  "evi_pole_bands = sample_bands \<lparr> B02 := Num 0.5, B04 := Num 0.375, B08 := Num 0.5 \<rparr>"

text \<open>A reading whose NDMI is \<open>(0.25 - 0.75) / (0.25 + 0.75) = -0.5\<close> and whose SWIR
  ratio is \<open>0.75 / 0.03125 = 24\<close>.\<close>

definition dry_bands :: bands where
  "dry_bands = sample_bands \<lparr> B08 := Num 0.25, B11 := Num 0.75, B12 := Num 0.03125 \<rparr>"

text \<open>A reading with the same NDMI whose two SWIR bands are equal.\<close>

definition dry_even_bands :: bands where
  "dry_even_bands = sample_bands \<lparr> B08 := Num 0.25, B11 := Num 0.75, B12 := Num 0.75 \<rparr>"

text \<open>Band objects as the utilities receive them.\<close>

definition sample_object :: band_object where
  "sample_object =
     [(''B02'', JNumber (Num 0.08)), (''B03'', JNumber (Num 0.10)),
      (''B04'', JNumber (Num 0.12)), (''B08'', JNumber (Num 0.25)),
      (''B11'', JNumber (Num 0.20)), (''B12'', JNumber (Num 0.15))]"

definition bad_object :: band_object where
  "bad_object = [(''B04'', JNumber (Num 1.5)), (''B08'', JOther)]"

section \<open>Properties of the scene selector\<close>

lemma isFinite_Num: "isFinite x \<Longrightarrow> \<exists>r. x = Num r"
  by (cases x) auto

lemma validScene_Num:
  "validScene s \<Longrightarrow> \<exists>c t. cloudCover s = Num c \<and> timeValue (date s) = Num t"
  unfolding validScene_def using isFinite_Num by blast

lemma preferred_Num:
  "cloudCover r = Num cr \<Longrightarrow> timeValue (date r) = Num tr \<Longrightarrow>
   cloudCover s = Num cs \<Longrightarrow> timeValue (date s) = Num ts \<Longrightarrow>
   preferred r s \<longleftrightarrow> cr < cs \<or> (cr = cs \<and> ts \<le> tr)"
  by (auto simp: preferred_def js_le_def js_eq_def)

lemma preferred_refl: "validScene s \<Longrightarrow> preferred s s"
proof -
  assume "validScene s"
  then obtain c t where "cloudCover s = Num c" "timeValue (date s) = Num t"
    using validScene_Num by blast
  then show ?thesis by (simp add: preferred_Num)
qed

lemma preferred_trans:
  assumes "validScene a" "validScene b" "validScene c" "preferred a b" "preferred b c"
  shows "preferred a c"
proof -
  obtain ca ta where a: "cloudCover a = Num ca" "timeValue (date a) = Num ta"
    using validScene_Num [OF assms(1)] by blast
  obtain cb tb where b: "cloudCover b = Num cb" "timeValue (date b) = Num tb"
    using validScene_Num [OF assms(2)] by blast
  obtain cc tc where c: "cloudCover c = Num cc" "timeValue (date c) = Num tc"
    using validScene_Num [OF assms(3)] by blast
  have "ca < cb \<or> (ca = cb \<and> tb \<le> ta)" using assms(4) preferred_Num [OF a b] by simp
  moreover have "cb < cc \<or> (cb = cc \<and> tc \<le> tb)" using assms(5) preferred_Num [OF b c] by simp
  ultimately have "ca < cc \<or> (ca = cc \<and> tc \<le> ta)" by linarith
  then show ?thesis using preferred_Num [OF a c] by simp
qed

lemma selectStep_preferred:
  assumes "validScene b" "validScene x"
  shows "\<exists>r. selectStep (Some b) x = Some r \<and> (r = b \<or> r = x) \<and> preferred r b \<and> preferred r x"
proof -
  obtain cb tb where b: "cloudCover b = Num cb" "timeValue (date b) = Num tb"
    using validScene_Num [OF assms(1)] by blast
  obtain cx tx where x: "cloudCover x = Num cx" "timeValue (date x) = Num tx"
    using validScene_Num [OF assms(2)] by blast
  have pr: "preferred b b" "preferred x x" using assms by (simp_all add: preferred_refl)
  consider "cx < cb" | "cx = cb" "tb < tx" | "\<not> cx < cb" "\<not> (cx = cb \<and> tb < tx)" by blast
  then show ?thesis
  proof cases
    case 1
    then have "selectStep (Some b) x = Some x" by (simp add: selectStep_def b x)
    moreover have "preferred x b" using 1 preferred_Num [OF x b] by simp
    ultimately show ?thesis using pr by simp
  next
    case 2
    then have "selectStep (Some b) x = Some x"
      by (simp add: selectStep_def b x js_eq_def js_gt_def)
    moreover have "preferred x b" using 2 preferred_Num [OF x b] by simp
    ultimately show ?thesis using pr by simp
  next
    case 3
    then have "selectStep (Some b) x = Some b"
      by (auto simp add: selectStep_def b x js_eq_def js_gt_def)
    moreover have "preferred b x" using 3 preferred_Num [OF b x] by auto
    ultimately show ?thesis using pr by simp
  qed
qed

lemma foldl_selectStep_mem:
  "\<exists>r. foldl selectStep (Some b) xs = Some r \<and> r \<in> insert b (set xs)"
proof (induction xs arbitrary: b)
  case Nil
  then show ?case by simp
next
  case (Cons x xs)
  have "selectStep (Some b) x = Some x \<or> selectStep (Some b) x = Some b"
    by (simp add: selectStep_def)
  then show ?case using Cons.IH [of x] Cons.IH [of b] by auto
qed

lemma selectBestScene_Cons:
  "selectBestScene (x # xs) = foldl selectStep (Some x) xs"
  by (simp add: selectBestScene_def selectStep_def)

lemma foldl_selectStep_best:
  "validScene b \<Longrightarrow> \<forall>s\<in>set xs. validScene s \<Longrightarrow>
   \<exists>r. foldl selectStep (Some b) xs = Some r \<and> r \<in> insert b (set xs) \<and> validScene r \<and>
       (\<forall>s \<in> insert b (set xs). preferred r s)"
proof (induction xs arbitrary: b)
  case Nil
  then show ?case by (simp add: preferred_refl)
next
  case (Cons x xs)
  from selectStep_preferred [OF Cons.prems(1), of x] Cons.prems(2)
  obtain r where r: "selectStep (Some b) x = Some r" "r = b \<or> r = x"
    "preferred r b" "preferred r x"
    by auto
  have vr: "validScene r" using r(2) Cons.prems by auto
  from Cons.IH [OF vr] Cons.prems(2)
  obtain q where q: "foldl selectStep (Some r) xs = Some q" "q \<in> insert r (set xs)"
    "validScene q" "\<forall>s \<in> insert r (set xs). preferred q s" by auto
  have "preferred q r" using q(4) by simp
  then have "preferred q b" "preferred q x"
    using preferred_trans [OF q(3) vr] r(3,4) Cons.prems by auto
  then show ?case using q r by auto
qed

lemma selectBestScene_three:
  assumes "cloudCover s1 = Num 10" "cloudCover s2 = Num 5" "cloudCover s3 = Num 5"
    and "timeValue (date s2) = Num d2" "timeValue (date s3) = Num d3"
  shows "selectBestScene [s1, s2, s3] = Some (if d2 < d3 then s3 else s2)"
  using assms by (simp add: selectBestScene_def selectStep_def js_eq_def js_gt_def)


text \<open>
  C9. For every non-empty list of scenes the selector returns an element of the list: it
  never makes up a scene. On the empty list the selector itself returns \<open>null\<close>
  (\<open>None\<close>) and raises nothing.
\<close>

theorem selectBestScene_member:
  "(\<forall>ss. ss \<noteq> [] \<longrightarrow> (\<exists>s \<in> set ss. selectBestScene ss = Some s))
   \<and> selectBestScene [] = None"
proof (intro conjI allI impI)
  fix ss :: "scene list"
  assume "ss \<noteq> []"
  then obtain x xs where ss: "ss = x # xs" by (cases ss) auto
  from foldl_selectStep_mem [of x xs] show "\<exists>s \<in> set ss. selectBestScene ss = Some s"
    unfolding ss selectBestScene_Cons by auto
next
  show "selectBestScene [] = None" by (simp add: selectBestScene_def)
qed

theorem selectBestScene_member_witness:
  "[scene1, scene2, scene3] \<noteq> []
   \<and> (\<exists>s \<in> set [scene1, scene2, scene3]. selectBestScene [scene1, scene2, scene3] = Some s)"
  using selectBestScene_member by blast


text \<open>
  C3. For every non-empty list of scenes of the data model (finite cloud covers, dates that
  parse) the selector returns a scene of the list whose cloud cover is minimal and whose
  capture, among the scenes of that cloud cover, is the most recent. In particular, for
  cloud covers 10, 5, 5 where the two scenes of cloud cover 5 have distinct dates, it
  returns the scene of cloud cover 5 with the later date.
\<close>

theorem selectBestScene_best:
  "(\<forall>ss. ss \<noteq> [] \<and> (\<forall>s \<in> set ss. validScene s) \<longrightarrow>
      (\<exists>best \<in> set ss. selectBestScene ss = Some best
         \<and> (\<forall>s \<in> set ss. js_le (cloudCover best) (cloudCover s))
         \<and> (\<forall>s \<in> set ss. js_eq (cloudCover s) (cloudCover best) \<longrightarrow>
               js_le (timeValue (date s)) (timeValue (date best)))))
   \<and> (\<forall>s1 s2 s3 d2 d3.
        cloudCover s1 = Num 10 \<and> cloudCover s2 = Num 5 \<and> cloudCover s3 = Num 5
        \<and> timeValue (date s2) = Num d2 \<and> timeValue (date s3) = Num d3 \<and> d2 \<noteq> d3 \<longrightarrow>
        selectBestScene [s1, s2, s3] = Some (if d2 < d3 then s3 else s2))"
proof (intro conjI allI impI)
  fix ss :: "scene list"
  assume a: "ss \<noteq> [] \<and> (\<forall>s \<in> set ss. validScene s)"
  then obtain x xs where ss: "ss = x # xs" by (cases ss) auto
  with a have "validScene x" "\<forall>s \<in> set xs. validScene s" by auto
  from foldl_selectStep_best [OF this]
  obtain r where "foldl selectStep (Some x) xs = Some r" "r \<in> insert x (set xs)"
    "\<forall>s \<in> insert x (set xs). preferred r s" by auto
  then show "\<exists>best \<in> set ss. selectBestScene ss = Some best
         \<and> (\<forall>s \<in> set ss. js_le (cloudCover best) (cloudCover s))
         \<and> (\<forall>s \<in> set ss. js_eq (cloudCover s) (cloudCover best) \<longrightarrow>
               js_le (timeValue (date s)) (timeValue (date best)))"
    unfolding ss selectBestScene_Cons preferred_def by auto
next
  fix s1 s2 s3 :: scene and d2 d3 :: real
  assume "cloudCover s1 = Num 10 \<and> cloudCover s2 = Num 5 \<and> cloudCover s3 = Num 5
        \<and> timeValue (date s2) = Num d2 \<and> timeValue (date s3) = Num d3 \<and> d2 \<noteq> d3"
  then show "selectBestScene [s1, s2, s3] = Some (if d2 < d3 then s3 else s2)"
    using selectBestScene_three by blast
qed

theorem selectBestScene_best_witness:
  "[scene1, scene2, scene3] \<noteq> []
   \<and> validScene scene1 \<and> validScene scene2 \<and> validScene scene3
   \<and> (\<exists>best \<in> set [scene1, scene2, scene3].
         selectBestScene [scene1, scene2, scene3] = Some best
         \<and> js_le (cloudCover best) (cloudCover scene1)
         \<and> js_le (cloudCover best) (cloudCover scene2)
         \<and> js_le (cloudCover best) (cloudCover scene3))
   \<and> selectBestScene [scene1, scene2, scene3] = Some scene3"
proof -
  have c: "cloudCover scene1 = Num 10 \<and> cloudCover scene2 = Num 5 \<and> cloudCover scene3 = Num 5
        \<and> timeValue (date scene2) = Num 1767312000000 \<and> timeValue (date scene3) = Num 1767398400000
        \<and> (1767312000000::real) \<noteq> 1767398400000"
    by (simp add: scene1_def scene2_def scene3_def date2026_def)
  have v: "validScene scene1 \<and> validScene scene2 \<and> validScene scene3"
    by (simp add: scene1_def scene2_def scene3_def date2026_def validScene_def)
  from selectBestScene_best c
  have t: "selectBestScene [scene1, scene2, scene3]
          = Some (if (1767312000000::real) < 1767398400000 then scene3 else scene2)"
    by blast
  have "[scene1, scene2, scene3] \<noteq> [] \<and> (\<forall>s \<in> set [scene1, scene2, scene3]. validScene s)"
    using v by simp
  with selectBestScene_best
  have "\<exists>best \<in> set [scene1, scene2, scene3].
         selectBestScene [scene1, scene2, scene3] = Some best
         \<and> (\<forall>s \<in> set [scene1, scene2, scene3]. js_le (cloudCover best) (cloudCover s))"
    by blast
  then have "\<exists>best \<in> set [scene1, scene2, scene3].
         selectBestScene [scene1, scene2, scene3] = Some best
         \<and> js_le (cloudCover best) (cloudCover scene1)
         \<and> js_le (cloudCover best) (cloudCover scene2)
         \<and> js_le (cloudCover best) (cloudCover scene3)"
    by auto
  with v t show ?thesis by simp
qed

section \<open>Properties of the entry point\<close>

text \<open>
  C4. When the list of scenes is absent or empty, the entry point fails with the error
  \<open>No satellite data available for analysis\<close> and returns no result; for every non-empty
  list of scenes it returns a result, so it does not raise that error.
\<close>

theorem analyzeSoilData_no_data:
  "((scenes sd = None \<or> scenes sd = Some []) \<longrightarrow>
      analyzeSoilData now sd loc = Inl (Error ''No satellite data available for analysis''))
   \<and> (\<forall>ss. scenes sd = Some ss \<and> ss \<noteq> [] \<longrightarrow>
        (\<exists>r. analyzeSoilData now sd loc = Inr r))"
proof (intro conjI allI impI)
  assume "scenes sd = None \<or> scenes sd = Some []"
  then show "analyzeSoilData now sd loc = Inl (Error ''No satellite data available for analysis'')"
    by (auto simp: analyzeSoilData_def)
next
  fix ss assume a: "scenes sd = Some ss \<and> ss \<noteq> []"
  then obtain x xs where ss: "ss = x # xs" by (cases ss) auto
  have "\<exists>s. selectBestScene ss = Some s"
    unfolding ss selectBestScene_Cons using foldl_selectStep_mem [of x xs] by blast
  then obtain s where "selectBestScene ss = Some s" ..
  with a show "\<exists>r. analyzeSoilData now sd loc = Inr r"
    by (simp add: analyzeSoilData_def Let_def)
qed

theorem analyzeSoilData_no_data_witness:
  "analyzeSoilData (date2026 0 3) \<lparr> scenes = Some [] \<rparr> sample_location
     = Inl (Error ''No satellite data available for analysis'')
   \<and> analyzeSoilData (date2026 0 3) \<lparr> scenes = None \<rparr> sample_location
     = Inl (Error ''No satellite data available for analysis'')
   \<and> (\<exists>r. analyzeSoilData (date2026 0 3) \<lparr> scenes = Some [fresh_scene] \<rparr> sample_location = Inr r)"
  using analyzeSoilData_no_data [of "\<lparr> scenes = Some [] \<rparr>" "date2026 0 3" sample_location]
    analyzeSoilData_no_data [of "\<lparr> scenes = None \<rparr>" "date2026 0 3" sample_location]
    analyzeSoilData_no_data [of "\<lparr> scenes = Some [fresh_scene] \<rparr>" "date2026 0 3" sample_location]
  by simp


section \<open>Properties of the confidence scorer\<close>

text \<open>
  C6, as the specification states it, asks for the label \<open>high\<close> for a single scene with
  cloud cover 8 captured at the moment of the analysis. The scorer does not return it.
\<close>

theorem calculateConfidence_single_fresh_not_high:
  "calculateConfidence (date2026 0 3) fresh_scene [fresh_scene] \<noteq> ''high''"
  by (simp add: calculateConfidence_def confidenceScore_def fresh_scene_def date2026_def Let_def
      js_sub_def js_gt_def Math_max_def Math_min_def)


text \<open>
  C6, amended. For a single scene with cloud cover 8 and age 0 days, the score is
  \<open>100 - 8 * 2 - 20 = 64\<close>, which is not above 80 but is above 60: the scorer returns the
  label \<open>medium\<close>.
\<close>

theorem calculateConfidence_single_fresh:
  "cloudCover s = Num 8 \<and> timeValue (date s) = timeValue now \<and> isFinite (timeValue now) \<longrightarrow>
     confidenceScore now s [s] = Num 64 \<and> calculateConfidence now s [s] = ''medium''"
proof
  assume a: "cloudCover s = Num 8 \<and> timeValue (date s) = timeValue now \<and> isFinite (timeValue now)"
  then obtain t where "timeValue now = Num t" using isFinite_Num by blast
  with a have "confidenceScore now s [s] = Num 64"
    by (simp add: confidenceScore_def Let_def js_sub_def js_gt_def Math_max_def Math_min_def)
  then show "confidenceScore now s [s] = Num 64 \<and> calculateConfidence now s [s] = ''medium''"
    by (simp add: calculateConfidence_def js_gt_def)
qed

theorem calculateConfidence_single_fresh_witness:
  "cloudCover fresh_scene = Num 8 \<and> timeValue (date fresh_scene) = timeValue (date2026 0 3)
   \<and> isFinite (timeValue (date2026 0 3))
   \<and> calculateConfidence (date2026 0 3) fresh_scene [fresh_scene] = ''medium''"
  using calculateConfidence_single_fresh [of fresh_scene "date2026 0 3"]
  by (simp add: fresh_scene_def date2026_def)


section \<open>Properties of the index calculator of the utilities\<close>

lemma validBand_iff: "validBand v \<longleftrightarrow> (\<exists>r. v = JNumber (Num r) \<and> 0 \<le> r \<and> r \<le> 1)"
proof (cases v)
  case (JNumber n)
  then show ?thesis by (cases n) (auto simp: js_ge_def js_le_def js_eq_def)
next
  case JOther
  then show ?thesis by simp
qed


text \<open>
  C10. The index calculator of the utilities throws \<open>Invalid spectral band values\<close>
  exactly when some value of the band object is not a number in \<open>[0, 1]\<close>; when every
  value is a number in \<open>[0, 1]\<close> it returns its five indices and raises nothing.
\<close>

theorem calculateIndices_validation:
  "(calculateIndices obj = Inl (Error ''Invalid spectral band values'')
      \<longleftrightarrow> (\<exists>v \<in> set (map snd obj). \<not> (\<exists>r. v = JNumber (Num r) \<and> 0 \<le> r \<and> r \<le> 1)))
   \<and> ((\<forall>v \<in> set (map snd obj). \<exists>r. v = JNumber (Num r) \<and> 0 \<le> r \<and> r \<le> 1)
      \<longrightarrow> (\<exists>ix. calculateIndices obj = Inr ix))"
  by (auto simp: calculateIndices_def Let_def list_all_iff validBand_iff)

theorem calculateIndices_validation_witness:
  "(\<exists>ix. calculateIndices sample_object = Inr ix)
   \<and> (\<exists>v \<in> set (map snd bad_object). \<not> (\<exists>r. v = JNumber (Num r) \<and> 0 \<le> r \<and> r \<le> 1))
   \<and> calculateIndices bad_object = Inl (Error ''Invalid spectral band values'')"
proof -
  have a: "\<forall>v \<in> set (map snd sample_object). \<exists>r. v = JNumber (Num r) \<and> 0 \<le> r \<and> r \<le> 1"
    by (simp add: sample_object_def validBand_iff [symmetric] js_ge_def js_le_def js_eq_def)
  have b: "\<exists>v \<in> set (map snd bad_object). \<not> (\<exists>r. v = JNumber (Num r) \<and> 0 \<le> r \<and> r \<le> 1)"
    by (simp add: bad_object_def validBand_iff [symmetric] js_ge_def js_le_def js_eq_def)
  from a b calculateIndices_validation [of sample_object] calculateIndices_validation [of bad_object]
  show ?thesis by blast
qed

section \<open>Properties of the spectral indices\<close>

text \<open>Clamping: \<open>Math.max(lo, Math.min(hi, x))\<close> brings every number into the range,
  the infinities too, and leaves \<open>NaN\<close> as it is.\<close>

lemma inUnit_Num: "inUnit x \<longleftrightarrow> (\<exists>r. x = Num r \<and> 0 \<le> r \<and> r \<le> 1)"
  by (cases x) (auto simp: inUnit_def)

lemma clamp_NaN: "Math_max lo (Math_min hi NaN) = NaN"
  by (simp add: Math_max_def Math_min_def)

lemma clamp_Num:
  "lo \<le> hi \<Longrightarrow> Math_max (Num lo) (Math_min (Num hi) (Num x)) = Num (max lo (min hi x))"
  by (auto simp: Math_max_def Math_min_def)

lemma clamp_PosInf: "Math_max (Num lo) (Math_min (Num hi) PosInf) = Num (max lo hi)"
  by (auto simp: Math_max_def Math_min_def)

lemma clamp_NegInf: "Math_max (Num lo) (Math_min (Num hi) NegInf) = Num lo"
  by (auto simp: Math_max_def Math_min_def)

lemma clamp_range:
  assumes "lo \<le> hi" "x \<noteq> NaN"
  shows "\<exists>r. Math_max (Num lo) (Math_min (Num hi) x) = Num r \<and> lo \<le> r \<and> r \<le> hi"
  using assms by (cases x) (auto simp: clamp_Num clamp_PosInf clamp_NegInf)

text \<open>The calculator of the utilities guards each formula with \<open>safeCalculation\<close>: its
  indices are finite numbers in \<open>[-1, 1]\<close>, and a formula that gives \<open>NaN\<close> or an
  infinity counts as 0.\<close>

lemma safeCalculation_range:
  "\<exists>r. safeCalculation x = Num r \<and> - 1 \<le> r \<and> r \<le> 1"
proof (cases x)
  case (Num a)
  then show ?thesis using clamp_range [of "- 1" 1 x]
    by (simp add: safeCalculation_def isNaN_def)
qed (simp_all add: safeCalculation_def isNaN_def)

lemma safeCalculation_degenerate:
  "isNaN x \<or> \<not> isFinite x \<Longrightarrow> safeCalculation x = Num 0"
  by (simp add: safeCalculation_def)

lemma calculateIndices_range:
  assumes "calculateIndices obj = Inr ix"
  shows "(\<exists>r. indices.ndvi ix = Num r \<and> - 1 \<le> r \<and> r \<le> 1)
       \<and> (\<exists>r. evi ix = Num r \<and> - 1 \<le> r \<and> r \<le> 1)
       \<and> (\<exists>r. ndmi ix = Num r \<and> - 1 \<le> r \<and> r \<le> 1)
       \<and> (\<exists>r. bsi ix = Num r \<and> - 1 \<le> r \<and> r \<le> 1)
       \<and> (\<exists>r. savi ix = Num r \<and> - 1 \<le> r \<and> r \<le> 1)"
proof -
  from assms have "list_all validBand (map snd obj)"
    by (auto simp: calculateIndices_def Let_def split: if_splits)
  with assms show ?thesis
    by (auto simp: calculateIndices_def Let_def safeCalculation_range)
qed

lemma sample_readings_unit:
  "unitBands dark_bands \<and> unitBands evi_pole_bands \<and> unitBands dark_swir_bands
   \<and> unitBands dry_bands \<and> unitBands sample_bands"
  by (simp add: unitBands_def inUnit_def dark_bands_def evi_pole_bands_def sample_bands_def
      dark_swir_bands_def dry_bands_def)

text \<open>The calculator of the service has no such guard: each of its indices is a number
  in \<open>[-1, 1]\<close> or \<open>NaN\<close>. On non-negative bands its NDVI is the quotient, which lies
  in \<open>[-1, 1]\<close>, unless both bands are zero.\<close>

lemma clamp_NaN_or_range:
  assumes "lo \<le> hi"
  shows "Math_max (Num lo) (Math_min (Num hi) x) = NaN \<and> x = NaN
       \<or> (\<exists>r. Math_max (Num lo) (Math_min (Num hi) x) = Num r \<and> lo \<le> r \<and> r \<le> hi)"
  using clamp_range [OF assms, of x] by (cases "x = NaN") (simp_all add: clamp_NaN)

lemma calculateVegetationIndices_range:
  "(indices.ndvi (calculateVegetationIndices b) = NaN
      \<or> (\<exists>r. indices.ndvi (calculateVegetationIndices b) = Num r \<and> - 1 \<le> r \<and> r \<le> 1))
   \<and> (evi (calculateVegetationIndices b) = NaN
      \<or> (\<exists>r. evi (calculateVegetationIndices b) = Num r \<and> - 1 \<le> r \<and> r \<le> 1))
   \<and> (ndmi (calculateVegetationIndices b) = NaN
      \<or> (\<exists>r. ndmi (calculateVegetationIndices b) = Num r \<and> - 1 \<le> r \<and> r \<le> 1))
   \<and> (bsi (calculateVegetationIndices b) = NaN
      \<or> (\<exists>r. bsi (calculateVegetationIndices b) = Num r \<and> - 1 \<le> r \<and> r \<le> 1))"
  using clamp_NaN_or_range [of "- 1" 1]
  by (simp add: calculateVegetationIndices_def Let_def) blast


lemma ratio_bounds:
  fixes n r :: real
  assumes "0 \<le> n" "0 \<le> r" "n + r \<noteq> 0"
  shows "- 1 \<le> (n - r) / (n + r)" "(n - r) / (n + r) \<le> 1"
proof -
  have pos: "0 < n + r" using assms by linarith
  show "- 1 \<le> (n - r) / (n + r)" using assms pos by (simp add: le_divide_eq)
  show "(n - r) / (n + r) \<le> 1" using assms pos by (simp add: divide_le_eq)
qed

lemma calculateVegetationIndices_ndvi:
  assumes "B08 b = Num n" "B04 b = Num r" "0 \<le> n" "0 \<le> r"
  shows "indices.ndvi (calculateVegetationIndices b) =
           (if n = 0 \<and> r = 0 then NaN else Num ((n - r) / (n + r)))"
proof (cases "n + r = 0")
  case True
  then have "n = 0" "r = 0" using assms(3,4) by linarith+
  then show ?thesis using assms
    by (simp add: calculateVegetationIndices_def Let_def js_sub_def clamp_NaN)
next
  case False
  from ratio_bounds [OF assms(3,4) False]
  have "max (- 1) (min 1 ((n - r) / (n + r))) = (n - r) / (n + r)" by simp
  moreover have "\<not> (n = 0 \<and> r = 0)" using False by auto
  ultimately show ?thesis using assms False
    by (simp add: calculateVegetationIndices_def Let_def js_sub_def clamp_Num)
qed


text \<open>
  C1 asks that, for band readings in \<open>[0, 1]\<close>, each index lies in \<open>[-1, 1]\<close> and is 0
  when its formula gives \<open>NaN\<close> or an infinity. The calculator of the service, which the
  entry point calls, does not do so: on the all-dark reading NDVI, NDMI and BSI are
  \<open>0 / 0\<close> and stay \<open>NaN\<close> through the clamp, and on a reading where the denominator
  of EVI is zero the infinite quotient is clamped to 1, not replaced by 0.
\<close>

theorem calculateVegetationIndices_degenerate:
  "indices.ndvi (calculateVegetationIndices dark_bands) = NaN
   \<and> ndmi (calculateVegetationIndices dark_bands) = NaN
   \<and> bsi (calculateVegetationIndices dark_bands) = NaN
   \<and> evi (calculateVegetationIndices evi_pole_bands) = Num 1"
  by (simp add: calculateVegetationIndices_def dark_bands_def evi_pole_bands_def
      sample_bands_def Let_def js_sub_def Math_max_def Math_min_def)

section \<open>Properties of the composition estimator\<close>

lemma composition_fields:
  "clay (analyzeSoilComposition b loc) =
     Math_max (Num 0) (Math_min (Num 100) (js_mul (js_div (B11 b) (B12 b)) (Num 40)))"
  "sand (analyzeSoilComposition b loc) =
     Math_max (Num 0)
       (Math_min (Num 100) (js_mul (js_sub (Num 2) (js_div (B11 b) (B12 b))) (Num 30)))"
  "silt (analyzeSoilComposition b loc) =
     Math_max (Num 0)
       (js_sub (js_sub (Num 100) (clay (analyzeSoilComposition b loc)))
          (sand (analyzeSoilComposition b loc)))"
  by (simp_all add: analyzeSoilComposition_def Let_def composition_values.defs)

lemma Math_max_Num: "Math_max (Num a) (Num b) = Num (max a b)"
  by (auto simp: Math_max_def)

lemma analyzeSoilComposition_range:
  assumes "unitBands b" "\<not> (B11 b = Num 0 \<and> B12 b = Num 0)"
  shows "\<exists>cl sa. clay (analyzeSoilComposition b loc) = Num cl
           \<and> sand (analyzeSoilComposition b loc) = Num sa
           \<and> 0 \<le> cl \<and> cl \<le> 100 \<and> 0 \<le> sa \<and> sa \<le> 100
           \<and> silt (analyzeSoilComposition b loc) = Num (max 0 (100 - cl - sa))"
proof -
  from assms(1) obtain s1 s2 where s: "B11 b = Num s1" "B12 b = Num s2" "0 \<le> s1" "0 \<le> s2"
    unfolding unitBands_def inUnit_Num by blast
  have "js_div (B11 b) (B12 b) \<noteq> NaN" using s assms(2) by auto
  then have c: "js_mul (js_div (B11 b) (B12 b)) (Num 40) \<noteq> NaN"
    and d: "js_mul (js_sub (Num 2) (js_div (B11 b) (B12 b))) (Num 30) \<noteq> NaN"
    by (cases "js_div (B11 b) (B12 b)"; simp add: js_sub_def)+
  from clamp_range [OF _ c, of 0 100]
  obtain cl where cl: "clay (analyzeSoilComposition b loc) = Num cl" "0 \<le> cl" "cl \<le> 100"
    unfolding composition_fields by auto
  from clamp_range [OF _ d, of 0 100]
  obtain sa where sa: "sand (analyzeSoilComposition b loc) = Num sa" "0 \<le> sa" "sa \<le> 100"
    unfolding composition_fields by auto
  have "silt (analyzeSoilComposition b loc) = Num (max 0 (100 - cl - sa))"
    unfolding composition_fields(3) cl(1) sa(1) by (simp add: js_sub_def Math_max_Num)
  with cl sa show ?thesis by blast
qed


text \<open>
  C5 asks that, for band readings in \<open>[0, 1]\<close>, clay and sand lie in \<open>[0, 100]\<close> and silt
  is \<open>max(0, 100 - clay - sand)\<close>. That holds unless both SWIR bands are zero
  (\<open>analyzeSoilComposition_range\<close>). When both are zero the ratio \<open>B11 / B12\<close> is
  \<open>NaN\<close>, which passes the clamps: clay, sand and silt are \<open>NaN\<close>.
\<close>

theorem analyzeSoilComposition_degenerate:
  "clay (analyzeSoilComposition dark_swir_bands sample_location) = NaN
   \<and> sand (analyzeSoilComposition dark_swir_bands sample_location) = NaN
   \<and> silt (analyzeSoilComposition dark_swir_bands sample_location) = NaN"
  by (simp add: composition_fields dark_swir_bands_def sample_bands_def js_sub_def Math_min_def
      Math_max_def)

section \<open>Properties of the moisture estimator\<close>

lemma moistureSegment_mono:
  assumes "n1 \<le> n2"
  shows "\<exists>m1 m2. moistureSegment (Num n1) = Num m1 \<and> moistureSegment (Num n2) = Num m2
           \<and> 5 \<le> m1 \<and> m1 \<le> m2"
  using assms
  by (auto simp: moistureSegment_def js_gt_def js_sub_def Math_max_Num max_def)

lemma percentage_of_index:
  assumes "moistureIndex b ix loc = Num m"
  shows "percentage (analyzeSoilMoisture b ix loc) = Num (of_int \<lfloor>m * 100 + 1 / 2\<rfloor> / 100)"
  using assms by (simp add: analyzeSoilMoisture_def Let_def)

lemma round_range:
  fixes m :: real
  assumes "5 \<le> m" "m \<le> 95"
  shows "5 \<le> of_int \<lfloor>m * 100 + 1 / 2\<rfloor> / (100::real)" "of_int \<lfloor>m * 100 + 1 / 2\<rfloor> / (100::real) \<le> 95"
proof -
  have "(500::int) \<le> \<lfloor>m * 100 + 1 / 2\<rfloor>" using assms by (simp add: le_floor_iff)
  then have "(500::real) \<le> of_int \<lfloor>m * 100 + 1 / 2\<rfloor>" by linarith
  then show "5 \<le> of_int \<lfloor>m * 100 + 1 / 2\<rfloor> / (100::real)" by simp
  have "\<lfloor>m * 100 + 1 / 2\<rfloor> \<le> (9500::int)" using assms by (simp add: floor_le_iff)
  then have "of_int \<lfloor>m * 100 + 1 / 2\<rfloor> \<le> (9500::real)" by linarith
  then show "of_int \<lfloor>m * 100 + 1 / 2\<rfloor> / (100::real) \<le> 95" by simp
qed

lemma round_mono:
  fixes m1 m2 :: real
  assumes "m1 \<le> m2"
  shows "of_int \<lfloor>m1 * 100 + 1 / 2\<rfloor> / (100::real) \<le> of_int \<lfloor>m2 * 100 + 1 / 2\<rfloor> / 100"
proof -
  have "\<lfloor>m1 * 100 + 1 / 2\<rfloor> \<le> \<lfloor>m2 * 100 + 1 / 2\<rfloor>" using assms by (intro floor_mono) simp
  then show ?thesis by (simp add: divide_right_mono)
qed

lemma js_le_Num: "js_le (Num a) (Num b) \<longleftrightarrow> a \<le> b"
  by (auto simp: js_le_def js_eq_def)

lemma moistureIndex_cases:
  assumes "B11 b = Num s1" "B12 b = Num s2" "0 \<le> s1" "0 \<le> s2" "\<not> (s1 = 0 \<and> s2 = 0)"
    and "moistureSegment (ndmi ix) = Num m0" "5 \<le> m0"
    and "g = (if js_lt (Math_abs (lat loc)) (Num 23.5) then 1.05
              else if js_gt (Math_abs (lat loc)) (Num 60) then 0.95 else (1::real))"
  shows "moistureIndex b ix loc =
           (if s2 = 0 then Num 95
            else Num (max 5 (min 95 (m0 * (0.9 + (s1 / s2 - 1) * 0.1) * g))))"
proof (cases "s2 = 0")
  case True
  then have "0 < s1" using assms by auto
  then have "js_div (B11 b) (B12 b) = PosInf" using assms True by simp
  then have "moistureIndex b ix loc = Num 95" using assms(6,7)
    by (simp add: moistureIndex_def Let_def js_sub_def clamp_PosInf)
  then show ?thesis using True by simp
next
  case False
  then have "js_div (B11 b) (B12 b) = Num (s1 / s2)" using assms by simp
  then have "moistureIndex b ix loc = Num (max 5 (min 95 (m0 * (0.9 + (s1 / s2 - 1) * 0.1) * g)))"
    using assms(6) by (simp add: moistureIndex_def Let_def js_sub_def clamp_Num assms(8))
  then show ?thesis using False by simp
qed

lemma analyzeSoilMoisture_range:
  assumes "unitBands b" "\<not> (B11 b = Num 0 \<and> B12 b = Num 0)" "ndmi ix = Num n"
  shows "\<exists>p. percentage (analyzeSoilMoisture b ix loc) = Num p \<and> 5 \<le> p \<and> p \<le> 95"
proof -
  from assms(1) obtain s1 s2 where s: "B11 b = Num s1" "B12 b = Num s2" "0 \<le> s1" "0 \<le> s2"
    unfolding unitBands_def inUnit_Num by blast
  have ns: "\<not> (s1 = 0 \<and> s2 = 0)" using assms(2) s by simp
  from moistureSegment_mono [of n n] obtain m0 where m0: "moistureSegment (ndmi ix) = Num m0" "5 \<le> m0"
    unfolding assms(3) by auto
  from moistureIndex_cases [OF s ns m0 refl, of loc]
  obtain m where m: "moistureIndex b ix loc = Num m" "5 \<le> m" "m \<le> 95"
    by (cases "s2 = 0") auto
  from round_range [OF m(2,3)] show ?thesis
    unfolding percentage_of_index [OF m(1)] by blast
qed

lemma analyzeSoilMoisture_mono:
  assumes "unitBands b" "\<not> (B11 b = Num 0 \<and> B12 b = Num 0)"
    and "ndmi ix1 = Num n1" "ndmi ix2 = Num n2" "n1 \<le> n2"
  shows "js_le (percentage (analyzeSoilMoisture b ix1 loc))
               (percentage (analyzeSoilMoisture b ix2 loc))"
proof -
  from assms(1) obtain s1 s2 where s: "B11 b = Num s1" "B12 b = Num s2" "0 \<le> s1" "0 \<le> s2"
    unfolding unitBands_def inUnit_Num by blast
  have ns: "\<not> (s1 = 0 \<and> s2 = 0)" using assms(2) s by simp
  from moistureSegment_mono [OF assms(5)] obtain m1 m2
    where m: "moistureSegment (ndmi ix1) = Num m1" "moistureSegment (ndmi ix2) = Num m2"
      "5 \<le> m1" "m1 \<le> m2"
    unfolding assms(3,4) by auto
  define g :: real where "g = (if js_lt (Math_abs (lat loc)) (Num 23.5) then 1.05
              else if js_gt (Math_abs (lat loc)) (Num 60) then 0.95 else 1)"
  have gpos: "0 < g" by (simp add: g_def)
  define f where "f = 0.9 + (s1 / s2 - 1) * 0.1"
  have i1: "moistureIndex b ix1 loc =
      (if s2 = 0 then Num 95 else Num (max 5 (min 95 (m1 * f * g))))"
    unfolding f_def using moistureIndex_cases [OF s ns m(1,3) g_def] .
  have i2: "moistureIndex b ix2 loc =
      (if s2 = 0 then Num 95 else Num (max 5 (min 95 (m2 * f * g))))"
    unfolding f_def using moistureIndex_cases [OF s ns m(2) _ g_def] m(3,4) by simp
  show ?thesis
  proof (cases "s2 = 0")
    case True
    then show ?thesis using i1 i2 by (simp add: percentage_of_index js_le_Num)
  next
    case False
    then have "0 \<le> s1 / s2" using s by simp
    moreover have "0 < 0.9 + (r - 1) * 0.1" if "0 \<le> r" for r :: real
      using that by argo
    ultimately have "0 < f" unfolding f_def by blast
    then have "m1 * f * g \<le> m2 * f * g" using m(4) gpos by (simp add: mult_right_mono)
    then have "max 5 (min 95 (m1 * f * g)) \<le> max 5 (min 95 (m2 * f * g))" by simp
    from round_mono [OF this] show ?thesis using False
      by (simp only: percentage_of_index i1 i2 js_le_Num if_False)
  qed
qed


text \<open>
  C2 asks that, for band readings in \<open>[0, 1]\<close>, the moisture percentage lies in
  \<open>[5, 95]\<close> and does not decrease when NDMI grows. That holds unless both SWIR bands
  are zero (\<open>analyzeSoilMoisture_range\<close>, \<open>analyzeSoilMoisture_mono\<close>). When both are
  zero the ratio \<open>B11 / B12\<close> is \<open>NaN\<close>, which passes the clamp to \<open>[5, 95]\<close>: the
  percentage is \<open>NaN\<close>.
\<close>

theorem analyzeSoilMoisture_degenerate:
  "percentage (analyzeSoilMoisture dark_swir_bands
                 (calculateVegetationIndices dark_swir_bands) sample_location) = NaN"
  by (simp add: analyzeSoilMoisture_def moistureIndex_def moistureSegment_def
      calculateVegetationIndices_def dark_swir_bands_def sample_bands_def sample_location_def
      Let_def js_sub_def js_gt_def Math_max_def Math_min_def)

section \<open>Properties of the recommendation generator\<close>

text \<open>The helpers only append, so the first group of rules gives the head of the list.\<close>

lemma addSoilHealthRecommendations_append:
  "\<exists>ys. addSoilHealthRecommendations now rs m c ix loc = rs @ ys"
  by (simp add: addSoilHealthRecommendations_def Let_def)

lemma addCropRecommendations_append:
  "\<exists>ys. addCropRecommendations now rs m c ix loc = rs @ ys"
  by (simp add: addCropRecommendations_def Let_def)

lemma addSustainabilityRecommendations_append:
  "\<exists>ys. addSustainabilityRecommendations now rs m c ix loc = rs @ ys"
  by (simp add: addSustainabilityRecommendations_def Let_def)

lemma generateRecommendations_critical:
  assumes "js_lt (percentage m) (Num 15)"
  shows "\<exists>r rest. generateRecommendations now m c ix loc = r # rest
           \<and> type r = ''Critical Irrigation'' \<and> priority r = ''critical''"
proof -
  obtain r7 where r7: "generateRecommendations now m c ix loc =
     addSustainabilityRecommendations now
       (addCropRecommendations now
          (addSoilHealthRecommendations now r7 m c ix loc) m c ix loc) m c ix loc"
    and h: "\<exists>r rest. r7 = r # rest \<and> type r = ''Critical Irrigation'' \<and> priority r = ''critical''"
    using assms by (simp add: generateRecommendations_def Let_def)
  from addSoilHealthRecommendations_append [of now r7 m c ix loc]
  obtain y1 where y1: "addSoilHealthRecommendations now r7 m c ix loc = r7 @ y1" ..
  from addCropRecommendations_append [of now "r7 @ y1" m c ix loc]
  obtain y2 where y2: "addCropRecommendations now (r7 @ y1) m c ix loc = (r7 @ y1) @ y2" ..
  from addSustainabilityRecommendations_append [of now "(r7 @ y1) @ y2" m c ix loc]
  obtain y3 where y3: "addSustainabilityRecommendations now ((r7 @ y1) @ y2) m c ix loc
      = ((r7 @ y1) @ y2) @ y3" ..
  from h obtain r rest where "r7 = r # rest" "type r = ''Critical Irrigation''"
    "priority r = ''critical''" by blast
  then show ?thesis unfolding r7 y1 y2 y3 by simp
qed


lemma generateRecommendations_irrigation:
  assumes "\<not> js_lt (percentage m) (Num 15)" "js_lt (percentage m) (Num 30)"
  shows "\<exists>r rest. generateRecommendations now m c ix loc = r # rest
           \<and> seasonality r = getSeasonalAdvice now ''irrigation'' loc"
proof -
  obtain r7 where r7: "generateRecommendations now m c ix loc =
     addSustainabilityRecommendations now
       (addCropRecommendations now
          (addSoilHealthRecommendations now r7 m c ix loc) m c ix loc) m c ix loc"
    and h: "\<exists>r rest. r7 = r # rest \<and> seasonality r = getSeasonalAdvice now ''irrigation'' loc"
    using assms by (simp add: generateRecommendations_def Let_def)
  from addSoilHealthRecommendations_append [of now r7 m c ix loc]
  obtain y1 where y1: "addSoilHealthRecommendations now r7 m c ix loc = r7 @ y1" ..
  from addCropRecommendations_append [of now "r7 @ y1" m c ix loc]
  obtain y2 where y2: "addCropRecommendations now (r7 @ y1) m c ix loc = (r7 @ y1) @ y2" ..
  from addSustainabilityRecommendations_append [of now "(r7 @ y1) @ y2" m c ix loc]
  obtain y3 where y3: "addSustainabilityRecommendations now ((r7 @ y1) @ y2) m c ix loc
      = ((r7 @ y1) @ y2) @ y3" ..
  from h obtain r rest where "r7 = r # rest"
    "seasonality r = getSeasonalAdvice now ''irrigation'' loc" by blast
  then show ?thesis unfolding r7 y1 y2 y3 by simp
qed

text \<open>The clock enters through the season only, and only into the field
  \<open>seasonality\<close>.\<close>

lemma getSeason_location: "getSeason month loc = getSeason month loc'"
  by (simp add: getSeason_def)

lemma getSeasonalAdvice_season:
  assumes "getSeason (getMonth n1) loc = getSeason (getMonth n2) loc"
  shows "getSeasonalAdvice n1 practice l = getSeasonalAdvice n2 practice l"
proof -
  have h: "getSeason (getMonth n1) l = getSeason (getMonth n2) l"
    using assms getSeason_location [of _ l loc] by simp
  show ?thesis unfolding getSeasonalAdvice_def Let_def h by (rule refl)
qed

lemma generateRecommendations_same_season:
  assumes "getSeason (getMonth n1) loc = getSeason (getMonth n2) loc"
  shows "generateRecommendations n1 m c ix loc = generateRecommendations n2 m c ix loc"
proof -
  have H: "\<And>practice l. getSeasonalAdvice n1 practice l = getSeasonalAdvice n2 practice l"
    using getSeasonalAdvice_season [OF assms] .
  show ?thesis
    by (simp only: generateRecommendations_def addSoilHealthRecommendations_def
        addCropRecommendations_def addSustainabilityRecommendations_def H)
qed

lemma map_if_then_else:
  "map f (if b then xs else ys) = (if b then map f xs else map f ys)"
  by simp

lemma addSoilHealthRecommendations_erase:
  assumes "map (\<lambda>r. r\<lparr>seasonality := ''''\<rparr>) rs1 = map (\<lambda>r. r\<lparr>seasonality := ''''\<rparr>) rs2"
  shows "map (\<lambda>r. r\<lparr>seasonality := ''''\<rparr>) (addSoilHealthRecommendations n1 rs1 m c ix loc)
       = map (\<lambda>r. r\<lparr>seasonality := ''''\<rparr>) (addSoilHealthRecommendations n2 rs2 m c ix loc)"
  using assms by (simp add: addSoilHealthRecommendations_def Let_def)

lemma addCropRecommendations_erase:
  assumes "map (\<lambda>r. r\<lparr>seasonality := ''''\<rparr>) rs1 = map (\<lambda>r. r\<lparr>seasonality := ''''\<rparr>) rs2"
  shows "map (\<lambda>r. r\<lparr>seasonality := ''''\<rparr>) (addCropRecommendations n1 rs1 m c ix loc)
       = map (\<lambda>r. r\<lparr>seasonality := ''''\<rparr>) (addCropRecommendations n2 rs2 m c ix loc)"
  using assms by (simp add: addCropRecommendations_def Let_def)

lemma addSustainabilityRecommendations_erase:
  assumes "map (\<lambda>r. r\<lparr>seasonality := ''''\<rparr>) rs1 = map (\<lambda>r. r\<lparr>seasonality := ''''\<rparr>) rs2"
  shows "map (\<lambda>r. r\<lparr>seasonality := ''''\<rparr>) (addSustainabilityRecommendations n1 rs1 m c ix loc)
       = map (\<lambda>r. r\<lparr>seasonality := ''''\<rparr>) (addSustainabilityRecommendations n2 rs2 m c ix loc)"
  using assms by (simp add: addSustainabilityRecommendations_def Let_def)

lemma generateRecommendations_erase:
  "map (\<lambda>r. r\<lparr>seasonality := ''''\<rparr>) (generateRecommendations n1 m c ix loc)
   = map (\<lambda>r. r\<lparr>seasonality := ''''\<rparr>) (generateRecommendations n2 m c ix loc)"
  unfolding generateRecommendations_def Let_def
  apply (rule addSustainabilityRecommendations_erase)
  apply (rule addCropRecommendations_erase)
  apply (rule addSoilHealthRecommendations_erase)
  apply (simp add: map_if_then_else split del: if_split cong: if_cong)
  done


section \<open>The very dry scenario\<close>

lemma moistureSegment_very_dry: "moistureSegment (Num (- 0.5)) = Num 5"
  by (simp add: moistureSegment_def js_gt_def Math_max_Num)

lemma dry_reading_values:
  "unitBands dry_bands
   \<and> ndmi (calculateVegetationIndices dry_bands) = Num (- 0.5)
   \<and> percentage (analyzeSoilMoisture dry_bands (calculateVegetationIndices dry_bands)
                   sample_location) = Num 16
   \<and> moisture.level (analyzeSoilMoisture dry_bands (calculateVegetationIndices dry_bands)
                       sample_location) = ''low''
   \<and> ''Critical Irrigation'' \<notin> set (map type
         (generateRecommendations (date2026 0 3)
            (analyzeSoilMoisture dry_bands (calculateVegetationIndices dry_bands) sample_location)
            (analyzeSoilComposition dry_bands sample_location)
            (calculateVegetationIndices dry_bands) sample_location))"
proof -
  have u: "unitBands dry_bands" using sample_readings_unit by simp
  have n: "ndmi (calculateVegetationIndices dry_bands) = Num (- 0.5)"
    by (simp add: calculateVegetationIndices_def dry_bands_def sample_bands_def Let_def
        js_sub_def clamp_Num)
  have i: "moistureIndex dry_bands (calculateVegetationIndices dry_bands) sample_location = Num 16"
    unfolding moistureIndex_def n moistureSegment_very_dry
    by (simp add: dry_bands_def sample_bands_def sample_location_def Let_def js_sub_def
        js_gt_def clamp_Num)
  have p: "percentage (analyzeSoilMoisture dry_bands (calculateVegetationIndices dry_bands)
                   sample_location) = Num 16"
    unfolding percentage_of_index [OF i] by simp
  have l: "moisture.level (analyzeSoilMoisture dry_bands (calculateVegetationIndices dry_bands)
                       sample_location) = ''low''"
    by (simp add: analyzeSoilMoisture_def Let_def i getMoistureLevel_def)
  have "map type
         (generateRecommendations (date2026 0 3)
            (analyzeSoilMoisture dry_bands (calculateVegetationIndices dry_bands) sample_location)
            (analyzeSoilComposition dry_bands sample_location)
            (calculateVegetationIndices dry_bands) sample_location) =
        [''Irrigation Management'', ''Soil Structure Improvement'', ''Biodiversity Enhancement'']"
  proof -
    have v: "indices.ndvi (calculateVegetationIndices dry_bands) = Num (13 / 37)"
      by (simp add: calculateVegetationIndices_def dry_bands_def sample_bands_def Let_def
          js_sub_def clamp_Num)
    have c: "clay (analyzeSoilComposition dry_bands sample_location) = Num 100"
      "sand (analyzeSoilComposition dry_bands sample_location) = Num 0"
      by (simp_all add: composition_fields dry_bands_def sample_bands_def js_sub_def clamp_Num)
    have o: "organicMatter (analyzeSoilComposition dry_bands sample_location) = Num (113 / 25)"
      by (simp add: analyzeSoilComposition_def Let_def composition_values.defs dry_bands_def
          sample_bands_def js_sub_def clamp_Num)
    have h: "ph (analyzeSoilComposition dry_bands sample_location) = Num (42 / 5)"
      by (simp add: analyzeSoilComposition_def Let_def composition_values.defs estimatePH_def
          dry_bands_def sample_bands_def sample_location_def js_sub_def js_gt_def clamp_Num)
    show ?thesis
      by (simp add: generateRecommendations_def addSoilHealthRecommendations_def
          addCropRecommendations_def addSustainabilityRecommendations_def Let_def
          p v n c o h js_gt_def js_ge_def js_le_Num)
  qed
  then show ?thesis using u n p l by simp
qed

text \<open>
  C7, as the specification states it, asks that every band reading in \<open>[0, 1]\<close> whose
  NDMI is \<open>-0.5\<close> gives the percentage 5, the level \<open>very_low\<close> and a recommendation
  \<open>Critical Irrigation\<close>. The SWIR refinement multiplies the segment value 5 by
  \<open>0.9 + (B11 / B12 - 1) * 0.1\<close>: for the ratio 24 that is \<open>5 * 3.2 = 16\<close>, the level is
  \<open>low\<close> and the generator recommends \<open>Irrigation Management\<close> instead.
\<close>

theorem very_dry_not_floor:
  "unitBands dry_bands
   \<and> ndmi (calculateVegetationIndices dry_bands) = Num (- 0.5)
   \<and> percentage (analyzeSoilMoisture dry_bands (calculateVegetationIndices dry_bands)
                   sample_location) = Num 16
   \<and> moisture.level (analyzeSoilMoisture dry_bands (calculateVegetationIndices dry_bands)
                       sample_location) = ''low''
   \<and> ''Critical Irrigation'' \<notin> set (map type
         (generateRecommendations (date2026 0 3)
            (analyzeSoilMoisture dry_bands (calculateVegetationIndices dry_bands) sample_location)
            (analyzeSoilComposition dry_bands sample_location)
            (calculateVegetationIndices dry_bands) sample_location))"
  by (rule dry_reading_values)

text \<open>
  C7, amended. For every band reading in \<open>[0, 1]\<close> with \<open>B12\<close> not zero whose NDMI is
  \<open>-0.5\<close>, and every location, such that the SWIR refinement times the latitude
  correction, \<open>(0.9 + (B11 / B12 - 1) * 0.1) * g\<close> with \<open>g\<close> one of 1.05, 0.95 and 1, is at
  most 1: the moisture estimator returns the percentage 5 with the level \<open>very_low\<close>, and
  the list of the recommendation generator, for any composition, indices, location and
  clock, includes a recommendation of type \<open>Critical Irrigation\<close> with priority
  \<open>critical\<close>.
\<close>

theorem very_dry_floor:
  assumes "unitBands b" "B11 b = Num s1" "B12 b = Num s2" "s2 \<noteq> 0"
    and "ndmi ix = Num (- 0.5)"
    and "(0.9 + (s1 / s2 - 1) * 0.1)
           * (if js_lt (Math_abs (lat loc)) (Num 23.5) then 1.05
              else if js_gt (Math_abs (lat loc)) (Num 60) then 0.95 else 1) \<le> 1"
  shows "percentage (analyzeSoilMoisture b ix loc) = Num 5
       \<and> moisture.level (analyzeSoilMoisture b ix loc) = ''very_low''
       \<and> (\<exists>r \<in> set (generateRecommendations now (analyzeSoilMoisture b ix loc) c ix2 loc2).
             type r = ''Critical Irrigation'' \<and> priority r = ''critical'')"
proof -
  define g :: real where "g = (if js_lt (Math_abs (lat loc)) (Num 23.5) then 1.05
              else if js_gt (Math_abs (lat loc)) (Num 60) then 0.95 else 1)"
  from assms(1) have s: "0 \<le> s1" "0 \<le> s2"
    unfolding unitBands_def inUnit_Num assms(2,3) by auto
  have ns: "\<not> (s1 = 0 \<and> s2 = 0)" using assms(4) by simp
  have m0: "moistureSegment (ndmi ix) = Num 5" "(5::real) \<le> 5"
    unfolding assms(5) by (rule moistureSegment_very_dry) simp
  have "5 * ((0.9 + (s1 / s2 - 1) * 0.1) * g) \<le> 5 * 1"
    using assms(6) unfolding g_def by (intro mult_left_mono) simp_all
  then have le: "5 * (0.9 + (s1 / s2 - 1) * 0.1) * g \<le> 5"
    by (simp only: mult.assoc mult_1_right)
  have i: "moistureIndex b ix loc = Num 5"
    using moistureIndex_cases [OF assms(2,3) s ns m0 g_def] assms(4) le by simp
  have p: "percentage (analyzeSoilMoisture b ix loc) = Num 5"
    unfolding percentage_of_index [OF i] by simp
  have l: "moisture.level (analyzeSoilMoisture b ix loc) = ''very_low''"
    by (simp add: analyzeSoilMoisture_def Let_def i getMoistureLevel_def)
  have "js_lt (percentage (analyzeSoilMoisture b ix loc)) (Num 15)" unfolding p by simp
  from generateRecommendations_critical [OF this, of now c ix2 loc2]
  have "\<exists>r \<in> set (generateRecommendations now (analyzeSoilMoisture b ix loc) c ix2 loc2).
             type r = ''Critical Irrigation'' \<and> priority r = ''critical''"
    by auto
  with p l show ?thesis by simp
qed

theorem very_dry_floor_witness:
  "unitBands dry_even_bands
   \<and> ndmi (calculateVegetationIndices dry_even_bands) = Num (- 0.5)
   \<and> percentage (analyzeSoilMoisture dry_even_bands (calculateVegetationIndices dry_even_bands)
                   sample_location) = Num 5
   \<and> moisture.level (analyzeSoilMoisture dry_even_bands
                       (calculateVegetationIndices dry_even_bands) sample_location) = ''very_low''
   \<and> (\<exists>r \<in> set (generateRecommendations (date2026 0 3)
                    (analyzeSoilMoisture dry_even_bands
                       (calculateVegetationIndices dry_even_bands) sample_location)
                    (analyzeSoilComposition dry_even_bands sample_location)
                    (calculateVegetationIndices dry_even_bands) sample_location).
         type r = ''Critical Irrigation'' \<and> priority r = ''critical'')"
proof -
  have u: "unitBands dry_even_bands"
    by (simp add: unitBands_def inUnit_def dry_even_bands_def sample_bands_def)
  have n: "ndmi (calculateVegetationIndices dry_even_bands) = Num (- 0.5)"
    by (simp add: calculateVegetationIndices_def dry_even_bands_def sample_bands_def Let_def
        js_sub_def clamp_Num)
  have b: "B11 dry_even_bands = Num 0.75" "B12 dry_even_bands = Num 0.75" "(0.75::real) \<noteq> 0"
    by (simp_all add: dry_even_bands_def)
  have f: "(0.9 + (0.75 / 0.75 - 1) * 0.1)
           * (if js_lt (Math_abs (lat sample_location)) (Num 23.5) then 1.05
              else if js_gt (Math_abs (lat sample_location)) (Num 60) then 0.95 else 1)
           \<le> (1::real)"
    by (simp add: sample_location_def js_gt_def)
  from very_dry_floor [OF u b n f] u n show ?thesis by simp
qed


section \<open>Determinism of the recommendation generator\<close>

text \<open>
  C8, as the specification states it, asks that two runs of the generator on identical
  moisture, composition, indices and location give identical lists, whatever the ambient
  state. The generator reads the month of the system clock for its seasonal advice: the
  same inputs give different lists in January and in July.
\<close>

theorem generateRecommendations_clock_dependent:
  "generateRecommendations (date2026 0 3)
      (analyzeSoilMoisture dry_bands (calculateVegetationIndices dry_bands) sample_location)
      (analyzeSoilComposition dry_bands sample_location)
      (calculateVegetationIndices dry_bands) sample_location
   \<noteq> generateRecommendations (date2026 6 3)
      (analyzeSoilMoisture dry_bands (calculateVegetationIndices dry_bands) sample_location)
      (analyzeSoilComposition dry_bands sample_location)
      (calculateVegetationIndices dry_bands) sample_location"
proof -
  let ?m = "analyzeSoilMoisture dry_bands (calculateVegetationIndices dry_bands) sample_location"
  let ?c = "analyzeSoilComposition dry_bands sample_location"
  let ?ix = "calculateVegetationIndices dry_bands"
  have "percentage ?m = Num 16" using dry_reading_values by simp
  then have p: "\<not> js_lt (percentage ?m) (Num 15)" "js_lt (percentage ?m) (Num 30)"
    by simp_all
  have w: "getSeasonalAdvice (date2026 0 3) ''irrigation'' sample_location
             = ''Minimal irrigation needed in most regions''"
    by (simp add: getSeasonalAdvice_def getSeason_def seasonalAdvice_def date2026_def Let_def
        js_ge_def js_le_Num)
  have s: "getSeasonalAdvice (date2026 6 3) ''irrigation'' sample_location
             = ''Peak irrigation season - ensure adequate water supply''"
    by (simp add: getSeasonalAdvice_def getSeason_def seasonalAdvice_def date2026_def Let_def
        js_ge_def js_le_Num)
  have k: "seasonality (hd (generateRecommendations n ?m ?c ?ix sample_location))
             = getSeasonalAdvice n ''irrigation'' sample_location" for n
    using generateRecommendations_irrigation [OF p, of n ?c ?ix sample_location] by auto
  show ?thesis
  proof
    assume "generateRecommendations (date2026 0 3) ?m ?c ?ix sample_location
          = generateRecommendations (date2026 6 3) ?m ?c ?ix sample_location"
    then have "seasonality (hd (generateRecommendations (date2026 0 3) ?m ?c ?ix sample_location))
      = seasonality (hd (generateRecommendations (date2026 6 3) ?m ?c ?ix sample_location))"
      by simp
    then show False unfolding k w s by simp
  qed
qed

text \<open>
  C8, amended. Two runs of the generator on identical moisture, composition, indices and
  location give lists of the same length and order whose recommendations agree in every
  field other than \<open>seasonality\<close>, whatever the clock shows; and the lists are identical
  whenever the months that the clock shows at the two runs fall in the same season.
\<close>

theorem generateRecommendations_deterministic:
  "(getSeason (getMonth n1) loc = getSeason (getMonth n2) loc \<longrightarrow>
      generateRecommendations n1 m c ix loc = generateRecommendations n2 m c ix loc)
   \<and> map (\<lambda>r. r\<lparr>seasonality := ''''\<rparr>) (generateRecommendations n1 m c ix loc)
     = map (\<lambda>r. r\<lparr>seasonality := ''''\<rparr>) (generateRecommendations n2 m c ix loc)"
  using generateRecommendations_same_season generateRecommendations_erase by blast

theorem generateRecommendations_deterministic_witness:
  "getSeason (getMonth (date2026 0 3)) sample_location
     = getSeason (getMonth (date2026 1 20)) sample_location
   \<and> generateRecommendations (date2026 0 3)
        (analyzeSoilMoisture dry_bands (calculateVegetationIndices dry_bands) sample_location)
        (analyzeSoilComposition dry_bands sample_location)
        (calculateVegetationIndices dry_bands) sample_location
     = generateRecommendations (date2026 1 20)
        (analyzeSoilMoisture dry_bands (calculateVegetationIndices dry_bands) sample_location)
        (analyzeSoilComposition dry_bands sample_location)
        (calculateVegetationIndices dry_bands) sample_location"
proof -
  have "getSeason (getMonth (date2026 0 3)) sample_location
     = getSeason (getMonth (date2026 1 20)) sample_location"
    by (simp add: getSeason_def date2026_def js_ge_def js_le_Num)
  with generateRecommendations_deterministic show ?thesis by blast
qed


end
